theory Spec2Isabelle
  imports Main "HOL-Library.Word" "HOL-Library.Sublist" "HOL-Library.Multiset"
begin

unbundle bit_operations_syntax

section \<open>Go library primitives used by the record builders\<close>

text \<open>
  A Go \<^verbatim>\<open>string\<close> is a byte sequence, here a \<^typ>\<open>string\<close>. A \<^verbatim>\<open>net.IP\<close> is a byte
  slice; the nil slice is the empty list (its \<^verbatim>\<open>len\<close> is 0 and ranging over it runs no
  iteration).
\<close>

type_synonym byte = "8 word"
type_synonym IP = "byte list"

definition IPv4len :: nat where
  "IPv4len = 4"

definition IPv6len :: nat where
  "IPv6len = 16"

text \<open>\<^verbatim>\<open>net.IP.To4\<close>: a 4-byte slice as it is, the last four bytes of an IPv4-mapped
  16-byte slice, nil otherwise.\<close>

definition To4 :: "IP \<Rightarrow> IP" where
  "To4 ip =
     (if length ip = IPv4len then ip
      else if length ip = IPv6len \<and> take 10 ip = replicate 10 0
              \<and> ip ! 10 = 0xff \<and> ip ! 11 = 0xff
      then drop 12 ip
      else [])"

text \<open>\<^verbatim>\<open>net.IP.To16\<close>: a 4-byte slice in IPv4-mapped form, a 16-byte slice as it is, nil
  otherwise.\<close>

definition To16 :: "IP \<Rightarrow> IP" where
  "To16 ip =
     (if length ip = IPv4len then replicate 10 0 @ [0xff, 0xff] @ ip
      else if length ip = IPv6len then ip
      else [])"

text \<open>\<^verbatim>\<open>strings.HasSuffix(s, suffix)\<close>.\<close>

definition HasSuffix :: "string \<Rightarrow> string \<Rightarrow> bool" where
  "HasSuffix s suf = suffix suf s"

text \<open>The verbs \<^verbatim>\<open>%d\<close> and \<^verbatim>\<open>%x\<close> of \<^verbatim>\<open>fmt\<close> on a non-negative integer: its decimal
  and its lowercase hexadecimal digits, most significant first, with no padding.\<close>

definition digit_chars :: string where
  "digit_chars = ''0123456789abcdef''"

function fmt_d :: "nat \<Rightarrow> string" where
  "fmt_d n = (if n < 10 then [digit_chars ! n]
              else fmt_d (n div 10) @ [digit_chars ! (n mod 10)])"
  by pat_completeness auto
termination
  by (relation "measure (\<lambda>n. n)") auto

function fmt_x :: "nat \<Rightarrow> string" where
  "fmt_x n = (if n < 16 then [digit_chars ! n]
              else fmt_x (n div 16) @ [digit_chars ! (n mod 16)])"
  by pat_completeness auto
termination
  by (relation "measure (\<lambda>n. n)") auto

declare fmt_d.simps [simp del]
declare fmt_x.simps [simp del]

section \<open>DNS resource records\<close>

text \<open>
  The header and the record types of \<^verbatim>\<open>github.com/miekg/dns\<close> that the builders fill in.
  A field a composite literal leaves out has Go's zero value: the builders set only
  \<^verbatim>\<open>Name\<close> and \<^verbatim>\<open>Rrtype\<close>, and the main loop stamps \<^verbatim>\<open>Ttl\<close> and \<^verbatim>\<open>Class\<close>.
\<close>

record RR_Header =
  Name :: string
  Rrtype :: "16 word"
  Class :: "16 word"
  Ttl :: "32 word"

definition TypeA :: "16 word" where "TypeA = 1"
definition TypePTR :: "16 word" where "TypePTR = 12"
definition TypeTXT :: "16 word" where "TypeTXT = 16"
definition TypeAAAA :: "16 word" where "TypeAAAA = 28"
definition TypeSRV :: "16 word" where "TypeSRV = 33"
definition ClassINET :: "16 word" where "ClassINET = 1"

datatype RR =
    A RR_Header IP
  | AAAA RR_Header IP
  | PTR RR_Header string
  | SRV RR_Header "16 word" "16 word" "16 word" string
  | TXT RR_Header "string list"

text \<open>\<^verbatim>\<open>dns.RR_Header{Name: name, Rrtype: t}\<close>.\<close>

definition Hdr :: "string \<Rightarrow> 16 word \<Rightarrow> RR_Header" where
  "Hdr name t = \<lparr>Name = name, Rrtype = t, Class = 0, Ttl = 0\<rparr>"

fun Header :: "RR \<Rightarrow> RR_Header" where
  "Header (A h _) = h"
| "Header (AAAA h _) = h"
| "Header (PTR h _) = h"
| "Header (SRV h _ _ _ _) = h"
| "Header (TXT h _) = h"

fun set_Header :: "(RR_Header \<Rightarrow> RR_Header) \<Rightarrow> RR \<Rightarrow> RR" where
  "set_Header f (A h a) = A (f h) a"
| "set_Header f (AAAA h a) = AAAA (f h) a"
| "set_Header f (PTR h p) = PTR (f h) p"
| "set_Header f (SRV h pr w po t) = SRV (f h) pr w po t"
| "set_Header f (TXT h t) = TXT (f h) t"

section \<open>The record builders\<close>

text \<open>The reverse name of the IPv4 branch of \<^verbatim>\<open>buildARecord\<close>:
  \<^verbatim>\<open>Sprintf("%d.%d.%d.%d.in-addr.arpa.", addr[3], addr[2], addr[1], addr[0])\<close>.\<close>

definition reverseIP4 :: "IP \<Rightarrow> string" where
  "reverseIP4 addr =
     fmt_d (unat (addr ! 3)) @ ''.'' @ fmt_d (unat (addr ! 2)) @ ''.'' @
     fmt_d (unat (addr ! 1)) @ ''.'' @ fmt_d (unat (addr ! 0)) @ ''.in-addr.arpa.''"

text \<open>The reverse name of the IPv6 branch: the loop takes \<^verbatim>\<open>b := addr[len(addr)-1-i]\<close>
  for \<^verbatim>\<open>i\<close> from 0, which is the bytes of \<^verbatim>\<open>addr\<close> from the last to the first, and
  writes \<^verbatim>\<open>Sprintf("%x.%x.", b&0x0f, (b&0xf0)>>4)\<close>; then \<^verbatim>\<open>ip6.arpa.\<close> is written.\<close>

definition nibbles :: "byte \<Rightarrow> string" where
  "nibbles b =
     fmt_x (unat (b AND 0x0f)) @ ''.'' @ fmt_x (unat (drop_bit 4 (b AND 0xf0))) @ ''.''"

definition reverseIP6 :: "IP \<Rightarrow> string" where
  "reverseIP6 addr = foldl (\<lambda>acc b. acc @ nibbles b) [] (rev addr) @ ''ip6.arpa.''"

definition buildARecord :: "string \<Rightarrow> IP \<Rightarrow> bool \<Rightarrow> RR list" where
  "buildARecord name addr addReverse =
     (let (forward, reverse) =
        (if length (To4 addr) = IPv4len then
           (let addr = To4 addr in
              (A (Hdr name TypeA) addr, PTR (Hdr (reverseIP4 addr) TypePTR) name))
         else
           (let addr = To16 addr in
              (AAAA (Hdr name TypeAAAA) addr, PTR (Hdr (reverseIP6 addr) TypePTR) name)))
      in if addReverse then [forward, reverse] else [forward])"

text \<open>\<^verbatim>\<open>corev1.Protocol\<close> is a string type; \<^verbatim>\<open>ProtocolTCP\<close> is \<^verbatim>\<open>"TCP"\<close> and
  \<^verbatim>\<open>ProtocolUDP\<close> is \<^verbatim>\<open>"UDP"\<close>.\<close>

definition ProtocolTCP :: string where "ProtocolTCP = ''TCP''"
definition ProtocolUDP :: string where "ProtocolUDP = ''UDP''"

text \<open>\<^verbatim>\<open>strings.ToLower\<close> is a function of the Go library (it maps the upper-case
  letters of Unicode, not of ASCII alone, and rewrites bytes that are not UTF-8): it is a
  parameter of \<^verbatim>\<open>buildSRVRecord\<close> and of every function that calls it.\<close>

definition buildSRVRecord ::
  "(string \<Rightarrow> string) \<Rightarrow> string \<Rightarrow> string \<Rightarrow> string \<Rightarrow> string \<Rightarrow> 16 word \<Rightarrow> string list
     \<Rightarrow> RR list" where
  "buildSRVRecord ToLower instancename servicename protocol hostname port txt =
     (if instancename = [] \<or> servicename = [] \<or> hostname = [] \<or> port = 0 then []
      else
        let txt = (if length txt = 0 then [''''] else txt) in
        if protocol \<noteq> ProtocolTCP \<and> protocol \<noteq> ProtocolUDP then []
        else
          let proto = (if protocol = ProtocolTCP then ''tcp'' else ''udp'');
              dnsservice = ''_'' @ ToLower servicename @ ''._'' @ proto @ ''.local.'';
              dnsinstance = instancename @ ''.'' @ dnsservice
          in [PTR (Hdr dnsservice TypePTR) dnsinstance,
              SRV (Hdr dnsinstance TypeSRV) 0 0 port hostname,
              TXT (Hdr dnsinstance TypeTXT) txt])"

section \<open>Cluster resources as the watchers read them\<close>

text \<open>
  The projections of \<^verbatim>\<open>corev1.Service\<close> and \<^verbatim>\<open>networking/v1.Ingress\<close> onto the fields
  that \<^verbatim>\<open>buildRecords\<close> reads. \<^verbatim>\<open>Port\<close> is an \<^verbatim>\<open>int32\<close>; \<^verbatim>\<open>Type\<close> and \<^verbatim>\<open>Protocol\<close> are
  string types. \<^verbatim>\<open>svc_Ingress\<close> and \<^verbatim>\<open>ing_Ingress\<close> hold the \<^verbatim>\<open>IP\<close> field of each entry
  of \<^verbatim>\<open>Status.LoadBalancer.Ingress\<close>, \<^verbatim>\<open>Rules\<close> the \<^verbatim>\<open>Host\<close> of each rule of
  \<^verbatim>\<open>Spec.Rules\<close>, in the order of the slice.
\<close>

record ServicePort =
  port_Name :: string
  Protocol :: string
  Port :: "32 word"

record Service =
  svc_Name :: string
  svc_Namespace :: string
  Annotations :: "string \<rightharpoonup> string"
  Type :: string
  ClusterIP :: string
  svc_Ingress :: "string list"
  Ports :: "ServicePort list"

record Ingress =
  ing_Name :: string
  ing_Namespace :: string
  ing_Ingress :: "string list"
  Rules :: "string list"

text \<open>The \<^verbatim>\<open>interface{}\<close> argument of the informer callbacks: the type assertion of
  \<^verbatim>\<open>buildRecords\<close> succeeds on one constructor only.\<close>

datatype object = ServiceObj Service | IngressObj Ingress | OtherObj

text \<open>
  Two more functions of the Go library are parameters of the model. \<^verbatim>\<open>net.ParseIP\<close> maps a
  text to an address or to nil (\<open>None\<close>). \<^verbatim>\<open>json.Unmarshal\<close> into a
  \<^verbatim>\<open>map[string]map[string]string\<close> fails (\<open>None\<close>) or yields a map; a Go map is
  an association list here, whose order is the order in which this run's \<^verbatim>\<open>range\<close>
  statements visit the entries (Go leaves that order to the runtime).
\<close>

type_synonym txtmap = "(string \<times> (string \<times> string) list) list"

section \<open>The Ingress watcher\<close>

record IngressSource =
  namespace :: string

text \<open>The loop shared by the watchers: \<^verbatim>\<open>ip\<close> starts nil and every entry with a
  non-empty \<^verbatim>\<open>IP\<close> overwrites it with \<^verbatim>\<open>net.ParseIP(lb.IP)\<close>.\<close>

definition lastIngressIP :: "(string \<Rightarrow> IP option) \<Rightarrow> string list \<Rightarrow> IP option" where
  "lastIngressIP ParseIP ingress =
     foldl (\<lambda>ip lb. if lb \<noteq> [] then ParseIP lb else ip) None ingress"

definition IngressSource_buildRecords ::
  "(string \<Rightarrow> IP option) \<Rightarrow> IngressSource \<Rightarrow> object \<Rightarrow> RR list" where
  "IngressSource_buildRecords ParseIP i obj =
     (case obj of
        IngressObj ingress \<Rightarrow>
          (case lastIngressIP ParseIP (ing_Ingress ingress) of
             None \<Rightarrow> []
           | Some ip \<Rightarrow>
               if namespace i \<noteq> [] \<and> namespace i \<noteq> ing_Namespace ingress then []
               else
                 foldl (\<lambda>records host.
                          if host \<noteq> [] \<and> HasSuffix host ''.local''
                          then records @ buildARecord (host @ ''.'') ip False
                          else records)
                   [] (Rules ingress))
      | _ \<Rightarrow> [])"

definition NewIngressWatcher :: "string \<Rightarrow> IngressSource" where
  "NewIngressWatcher ns = \<lparr>namespace = ns\<rparr>"

section \<open>The Service watcher\<close>

record ServiceSource =
  publishAll :: bool

definition hostname_key :: string where
  "hostname_key = ''external-mdns.blake.github.io/hostname''"

definition instance_key :: string where
  "instance_key = ''external-mdns.blake.github.io/service-instance''"

definition txt_key :: string where
  "txt_key = ''external-mdns.blake.github.io/service-txt''"

definition publish_key :: string where
  "publish_key = ''external-mdns.blake.github.io/publish''"

text \<open>The two nested \<^verbatim>\<open>range\<close> statements over the decoded annotation:
  \<^verbatim>\<open>svctxt[svc] = append(svctxt[svc], Sprintf("%s=%s", k, v))\<close>. A key that
  \<^verbatim>\<open>svctxt\<close> does not hold reads as the nil slice.\<close>

definition collect_txt :: "txtmap \<Rightarrow> string \<Rightarrow> string list" where
  "collect_txt txtmap =
     foldl (\<lambda>svctxt (svc, txt).
              foldl (\<lambda>svctxt (k, v). svctxt(svc := svctxt svc @ [k @ ''='' @ v])) svctxt txt)
       (\<lambda>_. []) txtmap"

text \<open>The two \<^verbatim>\<open>strings.HasSuffix\<close> tests on the hostname.\<close>

definition normalizeHostname :: "string \<Rightarrow> string" where
  "normalizeHostname hostname =
     (let hostname = (if \<not> HasSuffix hostname ''.'' then hostname @ ''.'' else hostname)
      in if \<not> HasSuffix hostname ''.local.'' then hostname @ ''local.'' else hostname)"

text \<open>The four blocks of \<^verbatim>\<open>ServiceSource.buildRecords\<close> that compute a value from the
  Service: the hostname and the instance name (an annotation or the default), the text
  strings per port name (the annotation decoded, nothing when it is empty or does not
  decode) and the address (by the type of the Service).\<close>

definition Service_hostname :: "Service \<Rightarrow> string" where
  "Service_hostname service =
     (case Annotations service hostname_key of
        Some hostname \<Rightarrow> hostname
      | None \<Rightarrow> svc_Name service @ ''.'' @ svc_Namespace service @ ''.local.'')"

definition Service_instancename :: "Service \<Rightarrow> string" where
  "Service_instancename service =
     (case Annotations service instance_key of
        Some instancename \<Rightarrow> instancename
      | None \<Rightarrow> svc_Namespace service @ ''/'' @ svc_Name service)"

definition Service_svctxt :: "(string \<Rightarrow> txtmap option) \<Rightarrow> Service \<Rightarrow> string \<Rightarrow> string list" where
  "Service_svctxt Unmarshal service =
     (case Annotations service txt_key of
        Some txtstr \<Rightarrow>
          if txtstr \<noteq> [] then
            (case Unmarshal txtstr of
               Some txtmap \<Rightarrow> collect_txt txtmap
             | None \<Rightarrow> (\<lambda>_. []))
          else (\<lambda>_. [])
      | None \<Rightarrow> (\<lambda>_. []))"

definition Service_ip :: "(string \<Rightarrow> IP option) \<Rightarrow> Service \<Rightarrow> IP option" where
  "Service_ip ParseIP service =
     (if Type service = ''ClusterIP'' then ParseIP (ClusterIP service)
      else if Type service = ''LoadBalancer''
      then lastIngressIP ParseIP (svc_Ingress service)
      else None)"

definition ServiceSource_buildRecords ::
  "(string \<Rightarrow> IP option) \<Rightarrow> (string \<Rightarrow> txtmap option) \<Rightarrow> (string \<Rightarrow> string)
     \<Rightarrow> ServiceSource \<Rightarrow> object \<Rightarrow> RR list" where
  "ServiceSource_buildRecords ParseIP Unmarshal ToLower s obj =
     (case obj of
        ServiceObj service \<Rightarrow>
          (let hostname = Service_hostname service;
               hasHostname = (Annotations service hostname_key \<noteq> None);
               instancename = Service_instancename service;
               hasInstancename = (Annotations service instance_key \<noteq> None);
               svctxt = Service_svctxt Unmarshal service;
               hasTxt = (Annotations service txt_key \<noteq> None)
           in if \<not> publishAll s \<and> \<not> hasHostname \<and> \<not> hasInstancename \<and> \<not> hasTxt
                 \<and> Annotations service publish_key = None
              then []
              else
                (case Service_ip ParseIP service of
                   None \<Rightarrow> []
                 | Some ip \<Rightarrow>
                     (let hostname = normalizeHostname hostname in
                        foldl (\<lambda>records port.
                                 records @ buildSRVRecord ToLower instancename (port_Name port)
                                   (Protocol port) hostname (ucast (Port port))
                                   (svctxt (port_Name port)))
                          (buildARecord hostname ip True) (Ports service))))
      | _ \<Rightarrow> [])"

definition NewServicesWatcher :: "bool \<Rightarrow> ServiceSource" where
  "NewServicesWatcher pa = \<lparr>publishAll = pa\<rparr>"

subsection \<open>The Service watcher of \<^verbatim>\<open>src/unnamed/part_000\<close>\<close>

text \<open>
  The repository holds a second \<^verbatim>\<open>ServiceSource\<close>, with a namespace restriction and an
  option for cluster-internal addresses and without annotations. Its type and functions
  carry the suffix \<open>part000\<close>; its field \<^verbatim>\<open>namespace\<close> is \<open>svc_namespace\<close>.
\<close>

record ServiceSource_part000 =
  defaultNamespace :: string
  withoutNamespace :: bool
  svc_namespace :: string
  publishInternal :: bool

definition Service_ip_part000 ::
  "(string \<Rightarrow> IP option) \<Rightarrow> ServiceSource_part000 \<Rightarrow> Service \<Rightarrow> IP option" where
  "Service_ip_part000 ParseIP s service =
     (if Type service = ''ClusterIP'' \<and> publishInternal s then ParseIP (ClusterIP service)
      else if Type service = ''LoadBalancer''
      then lastIngressIP ParseIP (svc_Ingress service)
      else None)"

definition ServiceSource_buildRecords_part000 ::
  "(string \<Rightarrow> IP option) \<Rightarrow> ServiceSource_part000 \<Rightarrow> object \<Rightarrow> RR list" where
  "ServiceSource_buildRecords_part000 ParseIP s obj =
     (case obj of
        ServiceObj service \<Rightarrow>
          (case Service_ip_part000 ParseIP s service of
             None \<Rightarrow> []
           | Some ip \<Rightarrow>
               if svc_namespace s \<noteq> [] \<and> svc_namespace s \<noteq> svc_Namespace service then []
               else
                 (let records =
                        buildARecord
                          (svc_Name service @ ''.'' @ svc_Namespace service @ ''.local.'') ip True
                  in if svc_Namespace service = defaultNamespace s \<or> withoutNamespace s
                     then records @ buildARecord (svc_Name service @ ''.local.'') ip False
                     else records))
      | _ \<Rightarrow> [])"

section \<open>Events, the channel and the main loop\<close>

text \<open>
  Modelled from the spec: the package \<^verbatim>\<open>resource\<close> (the struct \<^verbatim>\<open>Resource\<close> and the
  actions \<^verbatim>\<open>Added\<close> and \<^verbatim>\<open>Deleted\<close>) and the package \<^verbatim>\<open>mdns\<close> (\<^verbatim>\<open>Publish\<close> and
  \<^verbatim>\<open>UnPublish\<close>) are not among the source files. An event carries its source kind, one
  of two actions and the built records; the publisher is the sequence of calls made to it.
\<close>

datatype Action = Added | Deleted

record Resource =
  SourceType :: string
  Action :: Action
  Records :: "RR list"

datatype mdns_call = Publish RR | UnPublish RR

text \<open>
  \<^verbatim>\<open>notifyChan\<close> is unbuffered: a send returns when the main loop has received the
  value. The channel is the sequence of values sent on it so far, which is the sequence
  the main loop receives.
\<close>

definition ServiceSource_onAdd ::
  "(string \<Rightarrow> IP option) \<Rightarrow> (string \<Rightarrow> txtmap option) \<Rightarrow> (string \<Rightarrow> string)
     \<Rightarrow> ServiceSource \<Rightarrow> object \<Rightarrow> Resource list \<Rightarrow> Resource list" where
  "ServiceSource_onAdd ParseIP Unmarshal ToLower s obj notifyChan =
     notifyChan @ [\<lparr>SourceType = ''service'', Action = Added,
                    Records = ServiceSource_buildRecords ParseIP Unmarshal ToLower s obj\<rparr>]"

definition ServiceSource_onDelete ::
  "(string \<Rightarrow> IP option) \<Rightarrow> (string \<Rightarrow> txtmap option) \<Rightarrow> (string \<Rightarrow> string)
     \<Rightarrow> ServiceSource \<Rightarrow> object \<Rightarrow> Resource list \<Rightarrow> Resource list" where
  "ServiceSource_onDelete ParseIP Unmarshal ToLower s obj notifyChan =
     notifyChan @ [\<lparr>SourceType = ''service'', Action = Deleted,
                    Records = ServiceSource_buildRecords ParseIP Unmarshal ToLower s obj\<rparr>]"

definition ServiceSource_onUpdate ::
  "(string \<Rightarrow> IP option) \<Rightarrow> (string \<Rightarrow> txtmap option) \<Rightarrow> (string \<Rightarrow> string)
     \<Rightarrow> ServiceSource \<Rightarrow> object \<Rightarrow> object \<Rightarrow> Resource list \<Rightarrow> Resource list" where
  "ServiceSource_onUpdate ParseIP Unmarshal ToLower s oldObj newObj notifyChan =
     ServiceSource_onAdd ParseIP Unmarshal ToLower s newObj
       (ServiceSource_onDelete ParseIP Unmarshal ToLower s oldObj notifyChan)"

definition IngressSource_onAdd ::
  "(string \<Rightarrow> IP option) \<Rightarrow> IngressSource \<Rightarrow> object \<Rightarrow> Resource list \<Rightarrow> Resource list" where
  "IngressSource_onAdd ParseIP i obj notifyChan =
     notifyChan @ [\<lparr>SourceType = ''ingress'', Action = Added,
                    Records = IngressSource_buildRecords ParseIP i obj\<rparr>]"

definition IngressSource_onDelete ::
  "(string \<Rightarrow> IP option) \<Rightarrow> IngressSource \<Rightarrow> object \<Rightarrow> Resource list \<Rightarrow> Resource list" where
  "IngressSource_onDelete ParseIP i obj notifyChan =
     notifyChan @ [\<lparr>SourceType = ''ingress'', Action = Deleted,
                    Records = IngressSource_buildRecords ParseIP i obj\<rparr>]"

definition IngressSource_onUpdate ::
  "(string \<Rightarrow> IP option) \<Rightarrow> IngressSource \<Rightarrow> object \<Rightarrow> object \<Rightarrow> Resource list
     \<Rightarrow> Resource list" where
  "IngressSource_onUpdate ParseIP i oldObj newObj notifyChan =
     IngressSource_onAdd ParseIP i newObj (IngressSource_onDelete ParseIP i oldObj notifyChan)"

text \<open>The configuration variables of \<^verbatim>\<open>main\<close> that the watchers and the loop read, and
  the two constructor calls of \<^verbatim>\<open>main\<close>.\<close>

record Config =
  cfg_namespace :: string
  cfg_publishAll :: bool
  cfg_recordTTL :: int

definition ingressController :: "Config \<Rightarrow> IngressSource" where
  "ingressController cfg = NewIngressWatcher (cfg_namespace cfg)"

definition serviceController :: "Config \<Rightarrow> ServiceSource" where
  "serviceController cfg = NewServicesWatcher (cfg_publishAll cfg)"

text \<open>The body of the receive case of the main loop: every record of the event, in the
  order of the slice, gets \<^verbatim>\<open>Ttl = uint32(recordTTL)\<close> and \<^verbatim>\<open>Class = ClassINET\<close> and goes
  to \<^verbatim>\<open>Publish\<close> or \<^verbatim>\<open>UnPublish\<close>.\<close>

definition stamp :: "int \<Rightarrow> RR \<Rightarrow> RR" where
  "stamp recordTTL record =
     set_Header (\<lambda>h. h\<lparr>Ttl := word_of_int recordTTL, Class := ClassINET\<rparr>) record"

definition advertise :: "int \<Rightarrow> mdns_call list \<Rightarrow> Resource \<Rightarrow> mdns_call list" where
  "advertise recordTTL calls advertiseResource =
     foldl (\<lambda>calls record.
              (case Action advertiseResource of
                 Added \<Rightarrow> calls @ [Publish (stamp recordTTL record)]
               | Deleted \<Rightarrow> calls @ [UnPublish (stamp recordTTL record)]))
       calls (Records advertiseResource)"

definition main_loop :: "int \<Rightarrow> Resource list \<Rightarrow> mdns_call list \<Rightarrow> mdns_call list" where
  "main_loop recordTTL notifyChan calls = foldl (advertise recordTTL) calls notifyChan"

section \<open>Notions of the statements and worked examples\<close>

text \<open>The labels of an IPv6 reverse name in the words of the specification: the bytes
  of the address from the last to the first, for each byte its low nibble and then its
  high nibble, each as one lowercase hexadecimal digit.\<close>

definition nibble_labels :: "IP \<Rightarrow> string list" where
  "nibble_labels addr =
     concat (map (\<lambda>b. map (\<lambda>n. [digit_chars ! n]) [unat b mod 16, unat b div 16])
               (rev addr))"

text \<open>\<^verbatim>\<open>net.ParseIP\<close> on the texts of the examples: an IPv4 text parses to the 16-byte
  IPv4-mapped form; \<^verbatim>\<open>None\<close> and the empty text do not parse.\<close>

definition ParseIP_example :: "string \<Rightarrow> IP option" where
  "ParseIP_example =
     map_of [(''192.0.2.10'', [0,0,0,0,0,0,0,0,0,0,0xff,0xff,192,0,2,10]),
             (''10.96.0.1'', [0,0,0,0,0,0,0,0,0,0,0xff,0xff,10,96,0,1]),
             (''2001:db8::1'', [0x20,0x01,0x0d,0xb8,0,0,0,0,0,0,0,0,0,0,0,1])]"

text \<open>\<^verbatim>\<open>strings.ToLower\<close> on the texts of the examples, which are ASCII: the letters
  \<^verbatim>\<open>A\<close>..\<^verbatim>\<open>Z\<close> are lowered and every other byte is kept.\<close>

definition lower_byte :: "char \<Rightarrow> char" where
  "lower_byte c =
     (let n = (of_char c :: nat) in if 65 \<le> n \<and> n \<le> 90 then char_of (n + 32) else c)"

definition ToLower_example :: "string \<Rightarrow> string" where
  "ToLower_example s = map lower_byte s"

text \<open>\<^verbatim>\<open>json.Unmarshal\<close> on the texts of the examples; a text that is not listed, such as
  \<^verbatim>\<open>{bad\<close>, does not decode.\<close>

definition Unmarshal_example :: "string \<Rightarrow> txtmap option" where
  \<open>Unmarshal_example =
     map_of [(''{"http": {"path": "/example"}}'', [(''http'', [(''path'', ''/example'')])])]\<close>

text \<open>The Service of the end-to-end example of the specification, without annotations.\<close>

definition example_service :: Service where
  "example_service =
     \<lparr>svc_Name = ''example'', svc_Namespace = ''default'', Annotations = Map.empty,
      Type = ''LoadBalancer'', ClusterIP = ''10.96.0.1'', svc_Ingress = [''192.0.2.10''],
      Ports = [\<lparr>port_Name = ''http'', Protocol = ''TCP'', Port = 80\<rparr>]\<rparr>"

text \<open>The same Service carrying the \<^verbatim>\<open>publish\<close> marker, a configuration of \<^verbatim>\<open>main\<close>
  that restricts the namespace, and an Ingress.\<close>

definition published_service :: Service where
  "published_service = example_service\<lparr>Annotations := [publish_key \<mapsto> '''']\<rparr>"

definition example_ingress :: Ingress where
  "example_ingress =
     \<lparr>ing_Name = ''web'', ing_Namespace = ''default'', ing_Ingress = [''192.0.2.10''],
      Rules = [''app.local'', ''app.example.com'']\<rparr>"

definition example_config :: Config where
  "example_config = \<lparr>cfg_namespace = ''prod'', cfg_publishAll = False, cfg_recordTTL = 120\<rparr>"

text \<open>Two presentations of one Go map: the same entries, each with the same inner
  entries, visited in another order. Two record lists agree up to the order of the
  strings inside a text record when they agree record by record, a text record being
  compared by its header and the multiset of its strings.\<close>

definition same_map :: "txtmap \<Rightarrow> txtmap \<Rightarrow> bool" where
  "same_map m1 m2 \<longleftrightarrow>
     mset (map (\<lambda>(svc, txt). (svc, mset txt)) m1) = mset (map (\<lambda>(svc, txt). (svc, mset txt)) m2)"

fun same_upto_txt_order :: "RR \<Rightarrow> RR \<Rightarrow> bool" where
  "same_upto_txt_order (TXT h1 t1) (TXT h2 t2) = (h1 = h2 \<and> mset t1 = mset t2)"
| "same_upto_txt_order r1 r2 = (r1 = r2)"

text \<open>A \<^verbatim>\<open>service-txt\<close> annotation with two keys for one port, and its decoding as two
  runs may iterate it.\<close>

definition Unmarshal_ab :: "string \<Rightarrow> txtmap option" where
  \<open>Unmarshal_ab =
     map_of [(''{"http": {"a": "1", "b": "2"}}'', [(''http'', [(''a'', ''1''), (''b'', ''2'')])])]\<close>

definition Unmarshal_ba :: "string \<Rightarrow> txtmap option" where
  \<open>Unmarshal_ba =
     map_of [(''{"http": {"a": "1", "b": "2"}}'', [(''http'', [(''b'', ''2''), (''a'', ''1'')])])]\<close>

definition txt_service :: Service where
  \<open>txt_service = example_service\<lparr>Annotations := [txt_key \<mapsto> ''{"http": {"a": "1", "b": "2"}}'']\<rparr>\<close>

section \<open>Facts about the library primitives\<close>

lemma foldl_append_concat: "foldl (\<lambda>acc x. acc @ f x) a xs = a @ concat (map f xs)"
  by (induction xs arbitrary: a) simp_all

lemma fmt_x_nibble: "n < 16 \<Longrightarrow> fmt_x n = [digit_chars ! n]"
  by (simp add: fmt_x.simps)

lemma unat_low_nibble: "unat ((b::byte) AND 0x0f) = unat b mod 16"
proof -
  have "b AND 0x0f = take_bit 4 b"
    by (simp add: take_bit_eq_mask mask_eq_exp_minus_1)
  also have "\<dots> = b mod 16"
    by (simp add: take_bit_eq_mod)
  finally show ?thesis
    by (simp add: unat_mod)
qed

lemma unat_byte_div16: "unat (b::byte) div 16 < 16"
proof -
  have "unat b < 256" using unsigned_less [of b, where ?'a = nat] by simp
  then show ?thesis by simp
qed

lemma unat_high_nibble: "unat (drop_bit 4 ((b::byte) AND 0xf0)) = unat b div 16"
proof -
  have "unat (drop_bit 4 (b AND 0xf0)) = unat (drop_bit 4 b AND 0x0f)"
    by simp
  also have "\<dots> = unat (drop_bit 4 b) mod 16"
    by (rule unat_low_nibble)
  also have "unat (drop_bit 4 b) = unat b div 16"
    by (simp add: drop_bit_eq_div unat_div)
  finally show ?thesis using unat_byte_div16 [of b] by simp
qed

lemma nibbles_eq:
  "nibbles b = [digit_chars ! (unat b mod 16), CHR ''.'', digit_chars ! (unat b div 16), CHR ''.'']"
  unfolding nibbles_def unat_low_nibble unat_high_nibble
  using unat_byte_div16 [of b] by (simp add: fmt_x_nibble)

lemma reverseIP6_labels:
  "reverseIP6 addr = concat (map (\<lambda>l. l @ ''.'') (nibble_labels addr)) @ ''ip6.arpa.''"
proof -
  have "concat (map nibbles xs) =
        concat (map (\<lambda>l. l @ ''.'')
          (concat (map (\<lambda>b. map (\<lambda>n. [digit_chars ! n]) [unat b mod 16, unat b div 16]) xs)))"
    for xs
    by (induction xs) (simp_all add: nibbles_eq)
  then show ?thesis
    by (simp add: reverseIP6_def nibble_labels_def foldl_append_concat)
qed

lemma length_nibble_labels: "length (nibble_labels addr) = 2 * length addr"
proof -
  have "length (concat (map (\<lambda>b::byte. map (\<lambda>n. [digit_chars ! n]) [unat b mod 16, unat b div 16]) xs)) = 2 * length xs" for xs
    by (induction xs) simp_all
  from this [of "rev addr"] show ?thesis by (simp add: nibble_labels_def)
qed

lemma digit_chars_nth: "n < 16 \<Longrightarrow> digit_chars ! n \<in> set ''0123456789abcdef''"
proof -
  assume "n < 16"
  then have "n < length digit_chars" by (simp add: digit_chars_def)
  then have "digit_chars ! n \<in> set digit_chars" by (rule nth_mem)
  then show ?thesis by (simp only: digit_chars_def)
qed

lemma nibble_labels_hex:
  "l \<in> set (nibble_labels addr) \<Longrightarrow> \<exists>c \<in> set ''0123456789abcdef''. l = [c]"
proof -
  have lo: "unat b mod 16 < 16" for b :: byte by simp
  assume "l \<in> set (nibble_labels addr)"
  then obtain b :: byte where "l = [digit_chars ! (unat b mod 16)] \<or> l = [digit_chars ! (unat b div 16)]"
    unfolding nibble_labels_def by auto
  then show ?thesis
    using digit_chars_nth [OF lo [of b]] digit_chars_nth [OF unat_byte_div16 [of b]] by blast
qed


section \<open>The record builders: properties\<close>

text \<open>
  C5. With the reverse flag set \<^verbatim>\<open>buildARecord\<close> returns exactly two records, the forward
  record for the given name and then the pointer record whose target is that name; with
  the flag unset it returns that forward record alone. For an address with a 4-byte form
  \<open>a.b.c.d\<close> (a 4-byte slice, or the 16-byte IPv4-mapped slice that \<^verbatim>\<open>net.ParseIP\<close>
  returns for an IPv4 text) the forward record is an A record and the reverse name is
  \<open>d.c.b.a.in-addr.arpa.\<close> in decimal. For a 16-byte address with no 4-byte form the
  forward record is an AAAA record and the reverse name is 32 labels of one lowercase
  hexadecimal digit each, the bytes taken from the last to the first and the low nibble
  before the high nibble, followed by \<open>ip6.arpa.\<close>.
\<close>

theorem buildARecord_forward_then_reverse:
  "(\<exists>forward rname.
       buildARecord name addr True = [forward, PTR (Hdr rname TypePTR) name] \<and>
       buildARecord name addr False = [forward] \<and>
       Name (Header forward) = name) \<and>
   (To4 addr = [a, b, c, d] \<longrightarrow>
      buildARecord name addr True =
        [A (Hdr name TypeA) [a, b, c, d],
         PTR (Hdr (fmt_d (unat d) @ ''.'' @ fmt_d (unat c) @ ''.'' @ fmt_d (unat b) @ ''.'' @
                   fmt_d (unat a) @ ''.in-addr.arpa.'') TypePTR) name]) \<and>
   (length addr = 16 \<and> To4 addr = [] \<longrightarrow>
      buildARecord name addr True =
        [AAAA (Hdr name TypeAAAA) addr,
         PTR (Hdr (concat (map (\<lambda>l. l @ ''.'') (nibble_labels addr)) @ ''ip6.arpa.'') TypePTR)
           name] \<and>
      length (nibble_labels addr) = 32 \<and>
      (\<forall>l \<in> set (nibble_labels addr). \<exists>c \<in> set ''0123456789abcdef''. l = [c]))"
proof (intro conjI impI)
  show "\<exists>forward rname.
       buildARecord name addr True = [forward, PTR (Hdr rname TypePTR) name] \<and>
       buildARecord name addr False = [forward] \<and>
       Name (Header forward) = name"
    by (simp add: buildARecord_def Let_def Hdr_def)
next
  assume "To4 addr = [a, b, c, d]"
  then show "buildARecord name addr True =
        [A (Hdr name TypeA) [a, b, c, d],
         PTR (Hdr (fmt_d (unat d) @ ''.'' @ fmt_d (unat c) @ ''.'' @ fmt_d (unat b) @ ''.'' @
                   fmt_d (unat a) @ ''.in-addr.arpa.'') TypePTR) name]"
    by (simp add: buildARecord_def Let_def IPv4len_def reverseIP4_def)
next
  assume h: "length addr = 16 \<and> To4 addr = []"
  then have "To16 addr = addr"
    by (simp add: To16_def IPv4len_def IPv6len_def)
  with h show "buildARecord name addr True =
        [AAAA (Hdr name TypeAAAA) addr,
         PTR (Hdr (concat (map (\<lambda>l. l @ ''.'') (nibble_labels addr)) @ ''ip6.arpa.'') TypePTR)
           name]"
    by (simp add: buildARecord_def Let_def IPv4len_def reverseIP6_labels)
  from h show "length (nibble_labels addr) = 32"
    by (simp add: length_nibble_labels)
  show "\<forall>l \<in> set (nibble_labels addr). \<exists>c \<in> set ''0123456789abcdef''. l = [c]"
    using nibble_labels_hex by blast
qed

theorem buildARecord_forward_then_reverse_witness:
  "buildARecord ''example.default.local.'' [0,0,0,0,0,0,0,0,0,0,0xff,0xff,192,0,2,10] True =
     [A (Hdr ''example.default.local.'' TypeA) [192, 0, 2, 10],
      PTR (Hdr ''10.2.0.192.in-addr.arpa.'' TypePTR) ''example.default.local.''] \<and>
   buildARecord ''h.local.'' [0x20,0x01,0x0d,0xb8,0,0,0,0,0,0,0,0,0,0,0,1] True =
     [AAAA (Hdr ''h.local.'' TypeAAAA) [0x20,0x01,0x0d,0xb8,0,0,0,0,0,0,0,0,0,0,0,1],
      PTR (Hdr ''1.0.0.0.0.0.0.0.0.0.0.0.0.0.0.0.0.0.0.0.0.0.0.0.8.b.d.0.1.0.0.2.ip6.arpa.''
             TypePTR) ''h.local.'']"
proof -
  have v4: "To4 [0,0,0,0,0,0,0,0,0,0,0xff,0xff,192,0,2,10] = [192, 0, 2, 10]"
    by code_simp
  have v6: "length [0x20,0x01,0x0d,0xb8,0,0,0,0,0,0,0,0,0,0,0,1::byte] = 16 \<and>
            To4 [0x20,0x01,0x0d,0xb8,0,0,0,0,0,0,0,0,0,0,0,1] = []"
    by (simp add: To4_def IPv4len_def IPv6len_def)
  show ?thesis
    using buildARecord_forward_then_reverse
            [of "''example.default.local.''" "[0,0,0,0,0,0,0,0,0,0,0xff,0xff,192,0,2,10]"
               192 0 2 10]
          buildARecord_forward_then_reverse
            [of "''h.local.''" "[0x20,0x01,0x0d,0xb8,0,0,0,0,0,0,0,0,0,0,0,1]"]
          v4 v6
    by (simp add: fmt_d.simps digit_chars_def nibble_labels_def)
qed

text \<open>
  C6. \<^verbatim>\<open>buildSRVRecord\<close> returns no record when the instance name, the service name or
  the hostname is empty, when the port is zero, or when the protocol is neither TCP nor
  UDP. Otherwise it returns exactly three records in the order pointer, service, text.
  Reading their headers: the pointer record's target is the service record's owner name,
  the service record's owner name is the text record's owner name, and both are
  \<open>instance._service._proto.local.\<close>, where the service name is what
  \<^verbatim>\<open>strings.ToLower\<close> returns on it (whatever that function is); the service record has
  priority 0, weight 0, the given port and the hostname as its target; the text record
  carries the given strings, or one empty string when none were given.
\<close>

theorem buildSRVRecord_bundle:
  "(instancename = [] \<or> servicename = [] \<or> hostname = [] \<or> port = 0 \<or>
    (protocol \<noteq> ''TCP'' \<and> protocol \<noteq> ''UDP'') \<longrightarrow>
      buildSRVRecord ToLower instancename servicename protocol hostname port txts = []) \<and>
   (instancename \<noteq> [] \<and> servicename \<noteq> [] \<and> hostname \<noteq> [] \<and> port \<noteq> 0 \<and>
    (protocol = ''TCP'' \<or> protocol = ''UDP'') \<longrightarrow>
      (\<exists>ptr srv txtrec group owner.
         buildSRVRecord ToLower instancename servicename protocol hostname port txts =
           [ptr, srv, txtrec] \<and>
         group = ''_'' @ ToLower servicename @ ''._'' @
                 (if protocol = ''TCP'' then ''tcp'' else ''udp'') @ ''.local.'' \<and>
         owner = instancename @ ''.'' @ group \<and>
         ptr = PTR (Header ptr) owner \<and>
         srv = SRV (Header srv) 0 0 port hostname \<and>
         txtrec = TXT (Header txtrec) (if txts = [] then [''''] else txts) \<and>
         Header ptr = \<lparr>Name = group, Rrtype = TypePTR, Class = 0, Ttl = 0\<rparr> \<and>
         Header srv = \<lparr>Name = owner, Rrtype = TypeSRV, Class = 0, Ttl = 0\<rparr> \<and>
         Header txtrec = \<lparr>Name = owner, Rrtype = TypeTXT, Class = 0, Ttl = 0\<rparr> \<and>
         ptr = PTR (Header ptr) (Name (Header srv)) \<and>
         Name (Header srv) = Name (Header txtrec)))"
  by (auto simp: buildSRVRecord_def Let_def ProtocolTCP_def ProtocolUDP_def Hdr_def)

theorem buildSRVRecord_bundle_witness:
  "buildSRVRecord ToLower_example ''default/example'' ''HTTP'' ''TCP'' ''example.default.local.''
     80 [] =
     [PTR \<lparr>Name = ''_http._tcp.local.'', Rrtype = TypePTR, Class = 0, Ttl = 0\<rparr>
        ''default/example._http._tcp.local.'',
      SRV \<lparr>Name = ''default/example._http._tcp.local.'', Rrtype = TypeSRV, Class = 0, Ttl = 0\<rparr>
        0 0 80 ''example.default.local.'',
      TXT \<lparr>Name = ''default/example._http._tcp.local.'', Rrtype = TypeTXT, Class = 0, Ttl = 0\<rparr>
        ['''']] \<and>
   buildSRVRecord ToLower_example ''default/example'' ''dns'' ''SCTP'' ''example.default.local.''
     53 [''a=1''] = [] \<and>
   buildSRVRecord ToLower_example ''default/example'' ''dns'' ''UDP'' ''example.default.local.''
     0 [''a=1''] = []"
proof -
  have lower: "ToLower_example ''HTTP'' = ''http''"
    by code_simp
  have three: "\<exists>ptr srv txtrec group owner.
         buildSRVRecord ToLower_example ''default/example'' ''HTTP'' ''TCP''
           ''example.default.local.'' 80 [] = [ptr, srv, txtrec] \<and>
         group = ''_'' @ ToLower_example ''HTTP'' @ ''._'' @ ''tcp'' @ ''.local.'' \<and>
         owner = ''default/example'' @ ''.'' @ group \<and>
         ptr = PTR (Header ptr) owner \<and>
         srv = SRV (Header srv) 0 0 80 ''example.default.local.'' \<and>
         txtrec = TXT (Header txtrec) [''''] \<and>
         Header ptr = \<lparr>Name = group, Rrtype = TypePTR, Class = 0, Ttl = 0\<rparr> \<and>
         Header srv = \<lparr>Name = owner, Rrtype = TypeSRV, Class = 0, Ttl = 0\<rparr> \<and>
         Header txtrec = \<lparr>Name = owner, Rrtype = TypeTXT, Class = 0, Ttl = 0\<rparr>"
    using buildSRVRecord_bundle
            [where ToLower = ToLower_example and instancename = "''default/example''"
               and servicename = "''HTTP''" and protocol = "''TCP''"
               and hostname = "''example.default.local.''" and port = 80 and txts = "[]"]
    by auto
  then have tcp: "buildSRVRecord ToLower_example ''default/example'' ''HTTP'' ''TCP''
           ''example.default.local.'' 80 [] =
     [PTR \<lparr>Name = ''_http._tcp.local.'', Rrtype = TypePTR, Class = 0, Ttl = 0\<rparr>
        ''default/example._http._tcp.local.'',
      SRV \<lparr>Name = ''default/example._http._tcp.local.'', Rrtype = TypeSRV, Class = 0, Ttl = 0\<rparr>
        0 0 80 ''example.default.local.'',
      TXT \<lparr>Name = ''default/example._http._tcp.local.'', Rrtype = TypeTXT, Class = 0, Ttl = 0\<rparr>
        ['''']]"
    unfolding lower by (elim exE conjE) simp
  have sctp: "buildSRVRecord ToLower_example ''default/example'' ''dns'' ''SCTP''
                ''example.default.local.'' 53 [''a=1''] = []"
    using buildSRVRecord_bundle
            [where ToLower = ToLower_example and instancename = "''default/example''"
               and servicename = "''dns''" and protocol = "''SCTP''"
               and hostname = "''example.default.local.''" and port = 53 and txts = "[''a=1'']"]
    by simp
  have zero: "buildSRVRecord ToLower_example ''default/example'' ''dns'' ''UDP''
                ''example.default.local.'' 0 [''a=1''] = []"
    using buildSRVRecord_bundle
            [where ToLower = ToLower_example and instancename = "''default/example''"
               and servicename = "''dns''" and protocol = "''UDP''"
               and hostname = "''example.default.local.''" and port = 0 and txts = "[''a=1'']"]
    by simp
  from tcp sctp zero show ?thesis by simp
qed

section \<open>The Service watcher: properties\<close>

lemma ServiceSource_buildRecords_Service:
  "ServiceSource_buildRecords P U ToLower s (ServiceObj service) =
     (if \<not> publishAll s \<and> Annotations service hostname_key = None
         \<and> Annotations service instance_key = None \<and> Annotations service txt_key = None
         \<and> Annotations service publish_key = None
      then []
      else case Service_ip P service of
             None \<Rightarrow> []
           | Some ip \<Rightarrow>
               buildARecord (normalizeHostname (Service_hostname service)) ip True @
               concat (map (\<lambda>port. buildSRVRecord ToLower (Service_instancename service) (port_Name port)
                              (Protocol port) (normalizeHostname (Service_hostname service))
                              (ucast (Port port)) (Service_svctxt U service (port_Name port)))
                         (Ports service)))"
  by (simp add: ServiceSource_buildRecords_def Let_def foldl_append_concat split: option.splits)

lemma ServiceSource_buildRecords_part000_Service:
  "ServiceSource_buildRecords_part000 P s (ServiceObj service) =
     (case Service_ip_part000 P s service of
        None \<Rightarrow> []
      | Some ip \<Rightarrow>
          if svc_namespace s \<noteq> [] \<and> svc_namespace s \<noteq> svc_Namespace service then []
          else buildARecord (svc_Name service @ ''.'' @ svc_Namespace service @ ''.local.'') ip True @
               (if svc_Namespace service = defaultNamespace s \<or> withoutNamespace s
                then buildARecord (svc_Name service @ ''.local.'') ip False else []))"
  by (simp add: ServiceSource_buildRecords_part000_def Let_def split: option.splits)

lemma lastIngressIP_last:
  "lastIngressIP P lbs = (case filter (\<lambda>lb. lb \<noteq> []) lbs of [] \<Rightarrow> None | xs \<Rightarrow> P (last xs))"
  by (induction lbs rule: rev_induct) (auto simp: lastIngressIP_def split: list.splits)

lemma keys_distinct:
  "hostname_key \<noteq> txt_key" "instance_key \<noteq> txt_key" "publish_key \<noteq> txt_key"
  by (simp_all add: hostname_key_def instance_key_def txt_key_def publish_key_def)

lemma buildSRVRecord_no_txt:
  "r \<in> set (buildSRVRecord ToLower instancename servicename protocol hostname port []) \<Longrightarrow>
   r = TXT h t \<Longrightarrow> t = ['''']"
  by (auto simp: buildSRVRecord_def Let_def split: if_splits)

lemma buildARecord_no_TXT: "TXT h t \<notin> set (buildARecord name addr addReverse)"
  by (auto simp: buildARecord_def Let_def split: if_splits)


text \<open>
  C4. Hostname normalisation is idempotent for every input string, and its result always
  ends in \<open>.local.\<close>, with one trailing dot and not two.
\<close>

theorem normalizeHostname_idempotent:
  "normalizeHostname (normalizeHostname x) = normalizeHostname x \<and>
   HasSuffix (normalizeHostname x) ''.local.'' \<and>
   HasSuffix (normalizeHostname x) ''.'' \<and>
   \<not> HasSuffix (normalizeHostname x) ''..''"
proof -
  have local: "HasSuffix (normalizeHostname x) ''.local.''"
    by (auto simp: normalizeHostname_def HasSuffix_def Let_def suffix_def)
  then obtain zs where zs: "normalizeHostname x = zs @ ''.local.''"
    by (auto simp: HasSuffix_def suffix_def)
  have dot: "HasSuffix (normalizeHostname x) ''.''"
    unfolding zs HasSuffix_def suffix_def by simp
  have nodots: "\<not> HasSuffix (normalizeHostname x) ''..''"
    unfolding zs HasSuffix_def suffix_def by auto
  have "normalizeHostname (normalizeHostname x) = normalizeHostname x"
    using local dot by (simp add: normalizeHostname_def [of "normalizeHostname x"] Let_def)
  with local dot nodots show ?thesis by blast
qed


theorem normalizeHostname_idempotent_witness:
  "normalizeHostname ''foo'' = ''foo.local.'' \<and>
   normalizeHostname (normalizeHostname ''foo'') = normalizeHostname ''foo'' \<and>
   normalizeHostname ''a.local'' = ''a.local.'' \<and>
   normalizeHostname ''xlocal.'' = ''xlocal.local.''"
proof -
  have norm: "normalizeHostname ''foo'' = ''foo.local.''"
    "normalizeHostname ''a.local'' = ''a.local.''"
    "normalizeHostname ''xlocal.'' = ''xlocal.local.''"
    by code_simp+
  show ?thesis
    using normalizeHostname_idempotent [of "''foo''"] by (simp add: norm)
qed

text \<open>
  C3. A Service yields a non-empty record list only if publish-all is enabled or one of
  the annotations \<^verbatim>\<open>hostname\<close>, \<^verbatim>\<open>service-instance\<close>, \<^verbatim>\<open>service-txt\<close> or \<^verbatim>\<open>publish\<close>
  is present; a Service with none of these, publish-all being disabled, yields exactly
  the empty list.
\<close>

theorem ServiceSource_eligibility:
  "(ServiceSource_buildRecords P U ToLower s obj \<noteq> [] \<longrightarrow>
      (\<exists>service. obj = ServiceObj service \<and>
         (publishAll s \<or> Annotations service hostname_key \<noteq> None \<or>
          Annotations service instance_key \<noteq> None \<or> Annotations service txt_key \<noteq> None \<or>
          Annotations service publish_key \<noteq> None))) \<and>
   (\<not> publishAll s \<and> Annotations service hostname_key = None \<and>
    Annotations service instance_key = None \<and> Annotations service txt_key = None \<and>
    Annotations service publish_key = None \<longrightarrow>
      ServiceSource_buildRecords P U ToLower s (ServiceObj service) = [])"
proof (intro conjI impI)
  assume nonempty: "ServiceSource_buildRecords P U ToLower s obj \<noteq> []"
  then obtain service where obj: "obj = ServiceObj service"
    by (cases obj) (simp_all add: ServiceSource_buildRecords_def)
  with nonempty have "publishAll s \<or> Annotations service hostname_key \<noteq> None \<or>
          Annotations service instance_key \<noteq> None \<or> Annotations service txt_key \<noteq> None \<or>
          Annotations service publish_key \<noteq> None"
    by (auto simp: ServiceSource_buildRecords_Service split: if_splits)
  with obj show "\<exists>service. obj = ServiceObj service \<and>
         (publishAll s \<or> Annotations service hostname_key \<noteq> None \<or>
          Annotations service instance_key \<noteq> None \<or> Annotations service txt_key \<noteq> None \<or>
          Annotations service publish_key \<noteq> None)"
    by blast
next
  assume "\<not> publishAll s \<and> Annotations service hostname_key = None \<and>
    Annotations service instance_key = None \<and> Annotations service txt_key = None \<and>
    Annotations service publish_key = None"
  then show "ServiceSource_buildRecords P U ToLower s (ServiceObj service) = []"
    by (simp add: ServiceSource_buildRecords_Service)
qed

theorem ServiceSource_eligibility_witness:
  "ServiceSource_buildRecords ParseIP_example Unmarshal_example ToLower_example \<lparr>publishAll = False\<rparr>
     (ServiceObj example_service) = [] \<and>
   ServiceSource_buildRecords ParseIP_example Unmarshal_example ToLower_example \<lparr>publishAll = False\<rparr>
     (ServiceObj published_service) =
     [A (Hdr ''example.default.local.'' TypeA) [192, 0, 2, 10],
      PTR (Hdr ''10.2.0.192.in-addr.arpa.'' TypePTR) ''example.default.local.'',
      PTR (Hdr ''_http._tcp.local.'' TypePTR) ''default/example._http._tcp.local.'',
      SRV (Hdr ''default/example._http._tcp.local.'' TypeSRV) 0 0 80 ''example.default.local.'',
      TXT (Hdr ''default/example._http._tcp.local.'' TypeTXT) ['''']] \<and>
   Annotations published_service publish_key \<noteq> None"
proof -
  have none: "\<not> publishAll \<lparr>publishAll = False\<rparr> \<and>
      Annotations example_service hostname_key = None \<and>
      Annotations example_service instance_key = None \<and>
      Annotations example_service txt_key = None \<and>
      Annotations example_service publish_key = None"
    by (simp add: example_service_def)
  have built: "ServiceSource_buildRecords ParseIP_example Unmarshal_example ToLower_example \<lparr>publishAll = False\<rparr>
     (ServiceObj published_service) =
     [A (Hdr ''example.default.local.'' TypeA) [192, 0, 2, 10],
      PTR (Hdr ''10.2.0.192.in-addr.arpa.'' TypePTR) ''example.default.local.'',
      PTR (Hdr ''_http._tcp.local.'' TypePTR) ''default/example._http._tcp.local.'',
      SRV (Hdr ''default/example._http._tcp.local.'' TypeSRV) 0 0 80 ''example.default.local.'',
      TXT (Hdr ''default/example._http._tcp.local.'' TypeTXT) ['''']]"
    by code_simp
  have marker: "Annotations published_service publish_key \<noteq> None"
    by (simp add: published_service_def)
  show ?thesis
    using ServiceSource_eligibility
            [where P = ParseIP_example and U = Unmarshal_example and ToLower = ToLower_example
               and s = "\<lparr>publishAll = False\<rparr>" and obj = "ServiceObj published_service"
               and service = example_service]
          none built marker
    by simp
qed

text \<open>
  C8. When the \<^verbatim>\<open>service-txt\<close> annotation is present and its value does not decode,
  record building does not fail and treats the content as absent: the records are those
  of the same Service without the annotation under publish-all, every bundle that is not
  skipped is built from no text strings, and so every text record carries the single
  empty string. The presence of the annotation makes the Service eligible whatever the
  publish-all setting.
\<close>

theorem malformed_txt_is_absent:
  assumes "Annotations service txt_key = Some txtstr" and "Unmarshal txtstr = None"
  shows "ServiceSource_buildRecords ParseIP Unmarshal ToLower s (ServiceObj service) =
           (case Service_ip ParseIP service of
              None \<Rightarrow> []
            | Some ip \<Rightarrow>
                buildARecord (normalizeHostname (Service_hostname service)) ip True @
                concat (map (\<lambda>port. buildSRVRecord ToLower (Service_instancename service)
                               (port_Name port) (Protocol port)
                               (normalizeHostname (Service_hostname service))
                               (ucast (Port port)) [])
                          (Ports service))) \<and>
         ServiceSource_buildRecords ParseIP Unmarshal ToLower s (ServiceObj service) =
           ServiceSource_buildRecords ParseIP Unmarshal ToLower \<lparr>publishAll = True\<rparr>
             (ServiceObj (service\<lparr>Annotations := (Annotations service)(txt_key := None)\<rparr>)) \<and>
         (\<forall>r \<in> set (ServiceSource_buildRecords ParseIP Unmarshal ToLower s (ServiceObj service)).
            \<forall>h t. r = TXT h t \<longrightarrow> t = [''''])"
proof -
  let ?service' = "service\<lparr>Annotations := (Annotations service)(txt_key := None)\<rparr>"
  have notxt: "Service_svctxt Unmarshal service = (\<lambda>_. [])"
    using assms by (simp add: Service_svctxt_def)
  have notxt': "Service_svctxt Unmarshal ?service' = (\<lambda>_. [])"
    by (simp add: Service_svctxt_def)
  have same: "Service_hostname ?service' = Service_hostname service"
    "Service_instancename ?service' = Service_instancename service"
    "Service_ip ParseIP ?service' = Service_ip ParseIP service"
    by (simp_all add: Service_hostname_def Service_instancename_def Service_ip_def keys_distinct
          split: option.splits)
  have explicit: "ServiceSource_buildRecords ParseIP Unmarshal ToLower s (ServiceObj service) =
           (case Service_ip ParseIP service of
              None \<Rightarrow> []
            | Some ip \<Rightarrow>
                buildARecord (normalizeHostname (Service_hostname service)) ip True @
                concat (map (\<lambda>port. buildSRVRecord ToLower (Service_instancename service)
                               (port_Name port) (Protocol port)
                               (normalizeHostname (Service_hostname service))
                               (ucast (Port port)) [])
                          (Ports service)))"
    using assms(1) by (simp add: ServiceSource_buildRecords_Service notxt split: option.splits)
  have absent: "ServiceSource_buildRecords ParseIP Unmarshal ToLower \<lparr>publishAll = True\<rparr>
             (ServiceObj ?service') =
           ServiceSource_buildRecords ParseIP Unmarshal ToLower s (ServiceObj service)"
    unfolding explicit
    by (simp add: ServiceSource_buildRecords_Service notxt' same split: option.splits)
  have only_default: "\<forall>r \<in> set (ServiceSource_buildRecords ParseIP Unmarshal ToLower s (ServiceObj service)).
            \<forall>h t. r = TXT h t \<longrightarrow> t = ['''']"
    unfolding explicit
    by (auto simp: buildARecord_no_TXT split: option.splits dest: buildSRVRecord_no_txt)
  from explicit absent only_default show ?thesis by simp
qed

theorem malformed_txt_is_absent_witness:
  "ServiceSource_buildRecords ParseIP_example Unmarshal_example ToLower_example \<lparr>publishAll = False\<rparr>
     (ServiceObj (example_service\<lparr>Annotations := [txt_key \<mapsto> ''{bad'']\<rparr>)) =
     [A (Hdr ''example.default.local.'' TypeA) [192, 0, 2, 10],
      PTR (Hdr ''10.2.0.192.in-addr.arpa.'' TypePTR) ''example.default.local.'',
      PTR (Hdr ''_http._tcp.local.'' TypePTR) ''default/example._http._tcp.local.'',
      SRV (Hdr ''default/example._http._tcp.local.'' TypeSRV) 0 0 80 ''example.default.local.'',
      TXT (Hdr ''default/example._http._tcp.local.'' TypeTXT) ['''']]"
proof -
  let ?service = "example_service\<lparr>Annotations := [txt_key \<mapsto> ''{bad'']\<rparr>"
  have present: "Annotations ?service txt_key = Some ''{bad''"
    by simp
  have malformed: "Unmarshal_example ''{bad'' = None"
    by (simp add: Unmarshal_example_def)
  have ip: "Service_ip ParseIP_example ?service = Some [0,0,0,0,0,0,0,0,0,0,0xff,0xff,192,0,2,10]"
    by code_simp
  have recs: "buildARecord (normalizeHostname (Service_hostname ?service))
                [0,0,0,0,0,0,0,0,0,0,0xff,0xff,192,0,2,10] True @
              concat (map (\<lambda>port. buildSRVRecord ToLower_example
                               (Service_instancename ?service)
                               (port_Name port) (Protocol port)
                               (normalizeHostname (Service_hostname ?service))
                               (ucast (Port port)) [])
                          (Ports ?service)) =
     [A (Hdr ''example.default.local.'' TypeA) [192, 0, 2, 10],
      PTR (Hdr ''10.2.0.192.in-addr.arpa.'' TypePTR) ''example.default.local.'',
      PTR (Hdr ''_http._tcp.local.'' TypePTR) ''default/example._http._tcp.local.'',
      SRV (Hdr ''default/example._http._tcp.local.'' TypeSRV) 0 0 80 ''example.default.local.'',
      TXT (Hdr ''default/example._http._tcp.local.'' TypeTXT) ['''']]"
    by code_simp
  show ?thesis
    using malformed_txt_is_absent
            [where service = "example_service\<lparr>Annotations := [txt_key \<mapsto> ''{bad'']\<rparr>"
               and txtstr = "''{bad''" and Unmarshal = Unmarshal_example
               and ParseIP = ParseIP_example and ToLower = ToLower_example
               and s = "\<lparr>publishAll = False\<rparr>"]
          present malformed
    by (simp only: ip recs option.case)
qed


text \<open>
  C10. A Service of type ClusterIP whose cluster address does not parse (the headless
  marker \<^verbatim>\<open>None\<close>, the empty string) yields the empty record list, in the watcher that
  \<^verbatim>\<open>main\<close> constructs whatever its annotations and publish-all setting, and in the
  watcher of \<^verbatim>\<open>part_000\<close> whatever its options, internal publication included.
\<close>

theorem unparsable_ClusterIP_no_records:
  assumes "Type service = ''ClusterIP''" and "ParseIP (ClusterIP service) = None"
  shows "ServiceSource_buildRecords ParseIP Unmarshal ToLower s (ServiceObj service) = [] \<and>
         ServiceSource_buildRecords_part000 ParseIP s0 (ServiceObj service) = []"
  using assms
  by (simp add: ServiceSource_buildRecords_Service ServiceSource_buildRecords_part000_Service
        Service_ip_def Service_ip_part000_def)

theorem unparsable_ClusterIP_no_records_witness:
  "ParseIP_example ''None'' = None \<and> ParseIP_example '''' = None \<and>
   ServiceSource_buildRecords ParseIP_example Unmarshal_example ToLower_example \<lparr>publishAll = True\<rparr>
     (ServiceObj (published_service\<lparr>Type := ''ClusterIP'', ClusterIP := ''None''\<rparr>)) = [] \<and>
   ServiceSource_buildRecords_part000 ParseIP_example
     \<lparr>defaultNamespace = ''default'', withoutNamespace = False, svc_namespace = '''',
      publishInternal = True\<rparr>
     (ServiceObj (published_service\<lparr>Type := ''ClusterIP'', ClusterIP := ''None''\<rparr>)) = [] \<and>
   ServiceSource_buildRecords ParseIP_example Unmarshal_example ToLower_example \<lparr>publishAll = True\<rparr>
     (ServiceObj (published_service\<lparr>Type := ''ClusterIP'', ClusterIP := ''''\<rparr>)) = []"
proof -
  have unparsable: "ParseIP_example ''None'' = None" "ParseIP_example '''' = None"
    by (simp_all add: ParseIP_example_def)
  show ?thesis
    using unparsable_ClusterIP_no_records
            [where service = "published_service\<lparr>Type := ''ClusterIP'', ClusterIP := ''None''\<rparr>"
               and ParseIP = ParseIP_example and Unmarshal = Unmarshal_example
               and ToLower = ToLower_example and s = "\<lparr>publishAll = True\<rparr>"
               and ?s0.0 = "\<lparr>defaultNamespace = ''default'', withoutNamespace = False,
                 svc_namespace = [], publishInternal = True\<rparr>"]
          unparsable_ClusterIP_no_records
            [where service = "published_service\<lparr>Type := ''ClusterIP'', ClusterIP := []\<rparr>"
               and ParseIP = ParseIP_example and Unmarshal = Unmarshal_example
               and ToLower = ToLower_example and s = "\<lparr>publishAll = True\<rparr>"]
          unparsable
    by simp
qed

section \<open>Namespace restriction and address selection\<close>

text \<open>
  C1, as the code has it. The Ingress watcher, and the Service watcher of \<^verbatim>\<open>part_000\<close>,
  return the empty record list for every resource whose namespace differs from a
  non-empty configured restriction, whatever its addresses, rules and ports (both test
  the address first and the namespace second, and both tests return the empty list).
  The Service watcher that \<^verbatim>\<open>main\<close> constructs is given no namespace: its records do not
  depend on the configured restriction.
\<close>

theorem namespace_restriction:
  "(namespace i \<noteq> [] \<and> namespace i \<noteq> ing_Namespace ingress \<longrightarrow>
      IngressSource_buildRecords ParseIP i (IngressObj ingress) = []) \<and>
   (svc_namespace s0 \<noteq> [] \<and> svc_namespace s0 \<noteq> svc_Namespace service \<longrightarrow>
      ServiceSource_buildRecords_part000 ParseIP s0 (ServiceObj service) = []) \<and>
   ServiceSource_buildRecords ParseIP Unmarshal ToLower (serviceController (cfg\<lparr>cfg_namespace := ns\<rparr>)) obj =
     ServiceSource_buildRecords ParseIP Unmarshal ToLower (serviceController cfg) obj"
  by (simp add: IngressSource_buildRecords_def ServiceSource_buildRecords_part000_Service
        serviceController_def split: option.splits)

theorem namespace_restriction_witness:
  "IngressSource_buildRecords ParseIP_example (ingressController example_config)
     (IngressObj example_ingress) = [] \<and>
   IngressSource_buildRecords ParseIP_example
     (ingressController (example_config\<lparr>cfg_namespace := ''default''\<rparr>))
     (IngressObj example_ingress) = [A (Hdr ''app.local.'' TypeA) [192, 0, 2, 10]] \<and>
   ServiceSource_buildRecords_part000 ParseIP_example
     \<lparr>defaultNamespace = ''default'', withoutNamespace = False, svc_namespace = ''prod'',
      publishInternal = False\<rparr> (ServiceObj example_service) = [] \<and>
   ServiceSource_buildRecords_part000 ParseIP_example
     \<lparr>defaultNamespace = ''default'', withoutNamespace = False, svc_namespace = ''default'',
      publishInternal = False\<rparr> (ServiceObj example_service) =
     [A (Hdr ''example.default.local.'' TypeA) [192, 0, 2, 10],
      PTR (Hdr ''10.2.0.192.in-addr.arpa.'' TypePTR) ''example.default.local.'',
      A (Hdr ''example.local.'' TypeA) [192, 0, 2, 10]]"
proof -
  have ns: "namespace (ingressController example_config) = ''prod''"
    "ing_Namespace example_ingress = ''default''"
    "svc_Namespace example_service = ''default''"
    by (simp_all add: ingressController_def NewIngressWatcher_def example_config_def
          example_ingress_def example_service_def)
  have inside: "IngressSource_buildRecords ParseIP_example
     (ingressController (example_config\<lparr>cfg_namespace := ''default''\<rparr>))
     (IngressObj example_ingress) = [A (Hdr ''app.local.'' TypeA) [192, 0, 2, 10]]"
    "ServiceSource_buildRecords_part000 ParseIP_example
     \<lparr>defaultNamespace = ''default'', withoutNamespace = False, svc_namespace = ''default'',
      publishInternal = False\<rparr> (ServiceObj example_service) =
     [A (Hdr ''example.default.local.'' TypeA) [192, 0, 2, 10],
      PTR (Hdr ''10.2.0.192.in-addr.arpa.'' TypePTR) ''example.default.local.'',
      A (Hdr ''example.local.'' TypeA) [192, 0, 2, 10]]"
    by code_simp+
  show ?thesis
    using namespace_restriction
            [of "ingressController example_config" example_ingress ParseIP_example
               "\<lparr>defaultNamespace = ''default'', withoutNamespace = False,
                 svc_namespace = ''prod'', publishInternal = False\<rparr>" example_service]
          ns inside
    by simp
qed


text \<open>
  C1 as stated fails for the Service watcher that \<^verbatim>\<open>main\<close> constructs: with the
  restriction \<^verbatim>\<open>prod\<close> configured, the Service \<^verbatim>\<open>example\<close> of namespace \<^verbatim>\<open>default\<close>
  that carries the \<^verbatim>\<open>publish\<close> marker still yields its five records.
\<close>

theorem Service_namespace_not_restricted_counterexample:
  "cfg_namespace example_config = ''prod'' \<and>
   svc_Namespace published_service = ''default'' \<and>
   ServiceSource_buildRecords ParseIP_example Unmarshal_example ToLower_example
     (serviceController example_config) (ServiceObj published_service) =
     [A (Hdr ''example.default.local.'' TypeA) [192, 0, 2, 10],
      PTR (Hdr ''10.2.0.192.in-addr.arpa.'' TypePTR) ''example.default.local.'',
      PTR (Hdr ''_http._tcp.local.'' TypePTR) ''default/example._http._tcp.local.'',
      SRV (Hdr ''default/example._http._tcp.local.'' TypeSRV) 0 0 80 ''example.default.local.'',
      TXT (Hdr ''default/example._http._tcp.local.'' TypeTXT) ['''']]"
  by code_simp


text \<open>
  C2, as the code has it. In the Service watcher of \<^verbatim>\<open>part_000\<close> the cluster address of
  a ClusterIP-type Service is the address only when \<^verbatim>\<open>publishInternal\<close> is set, and with
  it unset such a Service yields no record. The Service watcher that \<^verbatim>\<open>main\<close> constructs
  has no such option: the cluster address of a ClusterIP-type Service is always the
  address. In both, the address of a LoadBalancer-type Service is what \<^verbatim>\<open>net.ParseIP\<close>
  returns on the last non-empty load-balancer ingress IP (none when there is no such
  entry), and the records are built from the address so chosen.
\<close>

theorem Service_address_selection:
  "(Type service = ''ClusterIP'' \<longrightarrow>
      Service_ip_part000 ParseIP s0 service =
        (if publishInternal s0 then ParseIP (ClusterIP service) else None) \<and>
      (\<not> publishInternal s0 \<longrightarrow>
         ServiceSource_buildRecords_part000 ParseIP s0 (ServiceObj service) = []) \<and>
      Service_ip ParseIP service = ParseIP (ClusterIP service)) \<and>
   (Type service = ''LoadBalancer'' \<longrightarrow>
      Service_ip ParseIP service =
        (case filter (\<lambda>lb. lb \<noteq> []) (svc_Ingress service) of
           [] \<Rightarrow> None | xs \<Rightarrow> ParseIP (last xs)) \<and>
      Service_ip_part000 ParseIP s0 service = Service_ip ParseIP service) \<and>
   ServiceSource_buildRecords_part000 ParseIP s0 (ServiceObj service) =
     (case Service_ip_part000 ParseIP s0 service of
        None \<Rightarrow> []
      | Some ip \<Rightarrow>
          if svc_namespace s0 \<noteq> [] \<and> svc_namespace s0 \<noteq> svc_Namespace service then []
          else buildARecord (svc_Name service @ ''.'' @ svc_Namespace service @ ''.local.'') ip
                 True @
               (if svc_Namespace service = defaultNamespace s0 \<or> withoutNamespace s0
                then buildARecord (svc_Name service @ ''.local.'') ip False else [])) \<and>
   ServiceSource_buildRecords ParseIP Unmarshal ToLower s (ServiceObj service) =
     (if \<not> publishAll s \<and> Annotations service hostname_key = None
         \<and> Annotations service instance_key = None \<and> Annotations service txt_key = None
         \<and> Annotations service publish_key = None
      then []
      else case Service_ip ParseIP service of
             None \<Rightarrow> []
           | Some ip \<Rightarrow>
               buildARecord (normalizeHostname (Service_hostname service)) ip True @
               concat (map (\<lambda>port. buildSRVRecord ToLower (Service_instancename service) (port_Name port)
                              (Protocol port) (normalizeHostname (Service_hostname service))
                              (ucast (Port port)) (Service_svctxt Unmarshal service (port_Name port)))
                         (Ports service)))"
proof (intro conjI impI)
  assume "Type service = ''ClusterIP''"
  then show "Service_ip_part000 ParseIP s0 service =
        (if publishInternal s0 then ParseIP (ClusterIP service) else None)"
    and "Service_ip ParseIP service = ParseIP (ClusterIP service)"
    by (simp_all add: Service_ip_part000_def Service_ip_def)
next
  assume "Type service = ''ClusterIP''" and "\<not> publishInternal s0"
  then show "ServiceSource_buildRecords_part000 ParseIP s0 (ServiceObj service) = []"
    by (simp add: ServiceSource_buildRecords_part000_Service Service_ip_part000_def)
next
  assume "Type service = ''LoadBalancer''"
  then show "Service_ip ParseIP service =
        (case filter (\<lambda>lb. lb \<noteq> []) (svc_Ingress service) of
           [] \<Rightarrow> None | xs \<Rightarrow> ParseIP (last xs))"
    and "Service_ip_part000 ParseIP s0 service = Service_ip ParseIP service"
    by (simp_all add: Service_ip_part000_def Service_ip_def lastIngressIP_last)
next
  show "ServiceSource_buildRecords_part000 ParseIP s0 (ServiceObj service) =
     (case Service_ip_part000 ParseIP s0 service of
        None \<Rightarrow> []
      | Some ip \<Rightarrow>
          if svc_namespace s0 \<noteq> [] \<and> svc_namespace s0 \<noteq> svc_Namespace service then []
          else buildARecord (svc_Name service @ ''.'' @ svc_Namespace service @ ''.local.'') ip
                 True @
               (if svc_Namespace service = defaultNamespace s0 \<or> withoutNamespace s0
                then buildARecord (svc_Name service @ ''.local.'') ip False else []))"
    by (rule ServiceSource_buildRecords_part000_Service)
next
  show "ServiceSource_buildRecords ParseIP Unmarshal ToLower s (ServiceObj service) =
     (if \<not> publishAll s \<and> Annotations service hostname_key = None
         \<and> Annotations service instance_key = None \<and> Annotations service txt_key = None
         \<and> Annotations service publish_key = None
      then []
      else case Service_ip ParseIP service of
             None \<Rightarrow> []
           | Some ip \<Rightarrow>
               buildARecord (normalizeHostname (Service_hostname service)) ip True @
               concat (map (\<lambda>port. buildSRVRecord ToLower (Service_instancename service) (port_Name port)
                              (Protocol port) (normalizeHostname (Service_hostname service))
                              (ucast (Port port)) (Service_svctxt Unmarshal service (port_Name port)))
                         (Ports service)))"
    by (rule ServiceSource_buildRecords_Service)
qed

theorem Service_address_selection_witness:
  "ServiceSource_buildRecords_part000 ParseIP_example
     \<lparr>defaultNamespace = ''default'', withoutNamespace = False, svc_namespace = '''',
      publishInternal = False\<rparr>
     (ServiceObj (example_service\<lparr>Type := ''ClusterIP''\<rparr>)) = [] \<and>
   Service_ip_part000 ParseIP_example
     \<lparr>defaultNamespace = ''default'', withoutNamespace = False, svc_namespace = '''',
      publishInternal = True\<rparr>
     (example_service\<lparr>Type := ''ClusterIP''\<rparr>) =
     Some [0,0,0,0,0,0,0,0,0,0,0xff,0xff,10,96,0,1] \<and>
   Service_ip ParseIP_example
     (example_service\<lparr>svc_Ingress := ['''', ''192.0.2.10'', ''10.96.0.1'', '''']\<rparr>) =
     Some [0,0,0,0,0,0,0,0,0,0,0xff,0xff,10,96,0,1]"
proof -
  have types: "Type (example_service\<lparr>Type := ''ClusterIP''\<rparr>) = ''ClusterIP''"
    "Type (example_service\<lparr>svc_Ingress := ['''', ''192.0.2.10'', ''10.96.0.1'', '''']\<rparr>) =
       ''LoadBalancer''"
    by (simp_all add: example_service_def)
  have parsed: "ParseIP_example ''10.96.0.1'' = Some [0,0,0,0,0,0,0,0,0,0,0xff,0xff,10,96,0,1]"
    by (simp add: ParseIP_example_def)
  show ?thesis
    using Service_address_selection
            [of "example_service\<lparr>Type := ''ClusterIP''\<rparr>" ParseIP_example
               "\<lparr>defaultNamespace = ''default'', withoutNamespace = False, svc_namespace = '''',
                 publishInternal = False\<rparr>"]
          Service_address_selection
            [of "example_service\<lparr>Type := ''ClusterIP''\<rparr>" ParseIP_example
               "\<lparr>defaultNamespace = ''default'', withoutNamespace = False, svc_namespace = '''',
                 publishInternal = True\<rparr>"]
          Service_address_selection
            [of "example_service\<lparr>svc_Ingress := ['''', ''192.0.2.10'', ''10.96.0.1'', '''']\<rparr>"
               ParseIP_example]
          types parsed
    by (simp add: example_service_def)
qed


text \<open>
  C2 as stated fails for the Service watcher that \<^verbatim>\<open>main\<close> constructs: the configuration
  has no option for cluster-internal addresses, and a ClusterIP-type Service with the
  \<^verbatim>\<open>publish\<close> marker yields the address records of its cluster address.
\<close>

theorem ClusterIP_without_option_counterexample:
  "Type (published_service\<lparr>Type := ''ClusterIP''\<rparr>) = ''ClusterIP'' \<and>
   ServiceSource_buildRecords ParseIP_example Unmarshal_example ToLower_example
     (serviceController example_config) (ServiceObj (published_service\<lparr>Type := ''ClusterIP''\<rparr>)) =
     [A (Hdr ''example.default.local.'' TypeA) [10, 96, 0, 1],
      PTR (Hdr ''1.0.96.10.in-addr.arpa.'' TypePTR) ''example.default.local.'',
      PTR (Hdr ''_http._tcp.local.'' TypePTR) ''default/example._http._tcp.local.'',
      SRV (Hdr ''default/example._http._tcp.local.'' TypeSRV) 0 0 80 ''example.default.local.'',
      TXT (Hdr ''default/example._http._tcp.local.'' TypeTXT) ['''']]"
  by code_simp


section \<open>Determinism of record building\<close>

lemma collect_inner:
  "foldl (\<lambda>svctxt (k, v). svctxt(svc := svctxt svc @ [f k v])) acc kvs =
   acc(svc := acc svc @ map (\<lambda>(k, v). f k v) kvs)"
  by (induction kvs arbitrary: acc) (auto simp: fun_eq_iff)

lemma collect_outer:
  "foldl (\<lambda>svctxt (svc, kvs).
            foldl (\<lambda>svctxt (k, v). svctxt(svc := svctxt svc @ [f k v])) svctxt kvs)
     acc txtmap p =
   acc p @ concat (map (\<lambda>(svc, kvs). if svc = p then map (\<lambda>(k, v). f k v) kvs else [])
                     txtmap)"
  by (induction txtmap arbitrary: acc) (auto simp: collect_inner)

lemma collect_txt_concat:
  "collect_txt txtmap p =
   concat (map (\<lambda>(svc, kvs). if svc = p then map (\<lambda>(k, v). k @ ''='' @ v) kvs else [])
             txtmap)"
  unfolding collect_txt_def
  using collect_outer [of "\<lambda>k v. k @ ''='' @ v" "\<lambda>_. []" txtmap p] by simp

lemma mset_collect_txt:
  "mset (collect_txt txtmap p) =
   (\<Sum>e \<in># mset (map (\<lambda>(svc, txt). (svc, mset txt)) txtmap).
      if fst e = p then image_mset (\<lambda>(k, v). k @ ''='' @ v) (snd e) else {#})"
  by (induction txtmap) (auto simp: collect_txt_concat)

lemma same_map_collect_txt:
  "same_map m1 m2 \<Longrightarrow> mset (collect_txt m1 p) = mset (collect_txt m2 p)"
  by (simp only: mset_collect_txt same_map_def)

lemma same_upto_txt_order_refl: "same_upto_txt_order r r"
  by (cases r) simp_all

lemma list_all2_same_refl: "list_all2 same_upto_txt_order rs rs"
  by (simp add: list_all2_refl same_upto_txt_order_refl)

lemma buildSRVRecord_same:
  "mset txt1 = mset txt2 \<Longrightarrow>
   list_all2 same_upto_txt_order
     (buildSRVRecord ToLower instancename servicename protocol hostname port txt1)
     (buildSRVRecord ToLower instancename servicename protocol hostname port txt2)"
proof -
  assume m: "mset txt1 = mset txt2"
  then have "txt1 = [] \<longleftrightarrow> txt2 = []"
    by (metis mset_zero_iff)
  with m show ?thesis
    by (auto simp: buildSRVRecord_def Let_def)
qed

lemma list_all2_concat_map:
  "(\<And>x. x \<in> set xs \<Longrightarrow> list_all2 R (f x) (g x)) \<Longrightarrow>
   list_all2 R (concat (map f xs)) (concat (map g xs))"
  by (induction xs) (auto intro: list_all2_appendI)

lemma Service_svctxt_same:
  assumes "\<And>txtstr. rel_option same_map (U1 txtstr) (U2 txtstr)"
  shows "mset (Service_svctxt U1 service p) = mset (Service_svctxt U2 service p)"
proof (cases "Annotations service txt_key")
  case None
  then show ?thesis by (simp add: Service_svctxt_def)
next
  case (Some txtstr)
  from assms [of txtstr] show ?thesis
    by (cases "U1 txtstr"; cases "U2 txtstr")
       (simp_all add: Service_svctxt_def Some same_map_collect_txt)
qed


text \<open>
  C9, as the code has it. Record building for a Service is deterministic up to the order
  of the strings inside each text record: two invocations on the same descriptor, whose
  decoded annotation is the same map iterated in whatever orders, produce record lists of
  the same length that agree record by record, a text record agreeing in its header and
  in the multiset of its strings.
\<close>

theorem buildRecords_deterministic_upto_txt_order:
  assumes "\<And>txtstr. rel_option same_map (U1 txtstr) (U2 txtstr)"
  shows "list_all2 same_upto_txt_order
           (ServiceSource_buildRecords ParseIP U1 ToLower s obj)
           (ServiceSource_buildRecords ParseIP U2 ToLower s obj)"
proof (cases obj)
  case (ServiceObj service)
  have ports: "list_all2 same_upto_txt_order
      (concat (map (\<lambda>port. buildSRVRecord ToLower inst (port_Name port) (Protocol port) h
                      (ucast (Port port)) (Service_svctxt U1 service (port_Name port))) ps))
      (concat (map (\<lambda>port. buildSRVRecord ToLower inst (port_Name port) (Protocol port) h
                      (ucast (Port port)) (Service_svctxt U2 service (port_Name port))) ps))"
    for inst h ps
    by (rule list_all2_concat_map) (rule buildSRVRecord_same, rule Service_svctxt_same [OF assms])
  show ?thesis
    unfolding ServiceObj ServiceSource_buildRecords_Service
    by (auto split: option.splits intro!: list_all2_appendI list_all2_same_refl ports)
next
  case (IngressObj ingress)
  then show ?thesis by (simp add: ServiceSource_buildRecords_def)
next
  case OtherObj
  then show ?thesis by (simp add: ServiceSource_buildRecords_def)
qed


theorem buildRecords_deterministic_upto_txt_order_witness:
  "list_all2 same_upto_txt_order
     (ServiceSource_buildRecords ParseIP_example Unmarshal_ab ToLower_example \<lparr>publishAll = False\<rparr>
        (ServiceObj txt_service))
     (ServiceSource_buildRecords ParseIP_example Unmarshal_ba ToLower_example \<lparr>publishAll = False\<rparr>
        (ServiceObj txt_service))"
proof -
  have "rel_option same_map (Unmarshal_ab txtstr) (Unmarshal_ba txtstr)" for txtstr
    by (simp add: Unmarshal_ab_def Unmarshal_ba_def same_map_def)
  then show ?thesis
    by (rule buildRecords_deterministic_upto_txt_order)
qed

text \<open>
  C9 as stated fails: the strings of a text record are appended in the iteration order of
  a Go map, which the language leaves unspecified. For an annotation with the keys
  \<^verbatim>\<open>a\<close> and \<^verbatim>\<open>b\<close> under one port, one run yields \<^verbatim>\<open>a=1\<close> before \<^verbatim>\<open>b=2\<close> and another
  the reverse, on the same descriptor.
\<close>

theorem txt_order_nondeterministic_counterexample:
  "ServiceSource_buildRecords ParseIP_example Unmarshal_ab ToLower_example \<lparr>publishAll = False\<rparr>
     (ServiceObj txt_service) =
     [A (Hdr ''example.default.local.'' TypeA) [192, 0, 2, 10],
      PTR (Hdr ''10.2.0.192.in-addr.arpa.'' TypePTR) ''example.default.local.'',
      PTR (Hdr ''_http._tcp.local.'' TypePTR) ''default/example._http._tcp.local.'',
      SRV (Hdr ''default/example._http._tcp.local.'' TypeSRV) 0 0 80 ''example.default.local.'',
      TXT (Hdr ''default/example._http._tcp.local.'' TypeTXT) [''a=1'', ''b=2'']] \<and>
   ServiceSource_buildRecords ParseIP_example Unmarshal_ba ToLower_example \<lparr>publishAll = False\<rparr>
     (ServiceObj txt_service) =
     [A (Hdr ''example.default.local.'' TypeA) [192, 0, 2, 10],
      PTR (Hdr ''10.2.0.192.in-addr.arpa.'' TypePTR) ''example.default.local.'',
      PTR (Hdr ''_http._tcp.local.'' TypePTR) ''default/example._http._tcp.local.'',
      SRV (Hdr ''default/example._http._tcp.local.'' TypeSRV) 0 0 80 ''example.default.local.'',
      TXT (Hdr ''default/example._http._tcp.local.'' TypeTXT) [''b=2'', ''a=1'']] \<and>
   ServiceSource_buildRecords ParseIP_example Unmarshal_ab ToLower_example \<lparr>publishAll = False\<rparr>
     (ServiceObj txt_service) \<noteq>
   ServiceSource_buildRecords ParseIP_example Unmarshal_ba ToLower_example \<lparr>publishAll = False\<rparr>
     (ServiceObj txt_service)"
proof -
  have ab: "ServiceSource_buildRecords ParseIP_example Unmarshal_ab ToLower_example \<lparr>publishAll = False\<rparr>
     (ServiceObj txt_service) =
     [A (Hdr ''example.default.local.'' TypeA) [192, 0, 2, 10],
      PTR (Hdr ''10.2.0.192.in-addr.arpa.'' TypePTR) ''example.default.local.'',
      PTR (Hdr ''_http._tcp.local.'' TypePTR) ''default/example._http._tcp.local.'',
      SRV (Hdr ''default/example._http._tcp.local.'' TypeSRV) 0 0 80 ''example.default.local.'',
      TXT (Hdr ''default/example._http._tcp.local.'' TypeTXT) [''a=1'', ''b=2'']]"
    by code_simp
  have ba: "ServiceSource_buildRecords ParseIP_example Unmarshal_ba ToLower_example \<lparr>publishAll = False\<rparr>
     (ServiceObj txt_service) =
     [A (Hdr ''example.default.local.'' TypeA) [192, 0, 2, 10],
      PTR (Hdr ''10.2.0.192.in-addr.arpa.'' TypePTR) ''example.default.local.'',
      PTR (Hdr ''_http._tcp.local.'' TypePTR) ''default/example._http._tcp.local.'',
      SRV (Hdr ''default/example._http._tcp.local.'' TypeSRV) 0 0 80 ''example.default.local.'',
      TXT (Hdr ''default/example._http._tcp.local.'' TypeTXT) [''b=2'', ''a=1'']]"
    by code_simp
  show ?thesis unfolding ab ba by simp
qed

section \<open>Update notifications\<close>

lemma advertise_Deleted:
  "Action ev = Deleted \<Longrightarrow>
   advertise ttl calls ev = calls @ map (\<lambda>r. UnPublish (stamp ttl r)) (Records ev)"
proof -
  assume a: "Action ev = Deleted"
  have "foldl (\<lambda>calls record. calls @ [UnPublish (stamp ttl record)]) calls rs =
        calls @ map (\<lambda>r. UnPublish (stamp ttl r)) rs" for rs
    by (induction rs arbitrary: calls) simp_all
  with a show ?thesis by (simp add: advertise_def)
qed

lemma advertise_Added:
  "Action ev = Added \<Longrightarrow>
   advertise ttl calls ev = calls @ map (\<lambda>r. Publish (stamp ttl r)) (Records ev)"
proof -
  assume a: "Action ev = Added"
  have "foldl (\<lambda>calls record. calls @ [Publish (stamp ttl record)]) calls rs =
        calls @ map (\<lambda>r. Publish (stamp ttl r)) rs" for rs
    by (induction rs arbitrary: calls) simp_all
  with a show ?thesis by (simp add: advertise_def)
qed

lemma shuffles_single:
  "zs \<in> shuffles [y] ys \<Longrightarrow> \<exists>vs ws. zs = vs @ y # ws"
proof (induction ys arbitrary: zs)
  case Nil
  then have "zs = [] @ y # []" by simp
  then show ?case by blast
next
  case (Cons a ys)
  from Cons.prems consider "zs = y # a # ys"
    | zs' where "zs = a # zs'" "zs' \<in> shuffles [y] ys"
    by auto
  then show ?case
  proof cases
    case 1
    then have "zs = [] @ y # a # ys" by simp
    then show ?thesis by blast
  next
    case 2
    from Cons.IH [OF 2(2)] obtain vs ws where "zs' = vs @ y # ws" by blast
    with 2(1) have "zs = (a # vs) @ y # ws" by simp
    then show ?thesis by blast
  qed
qed

lemma shuffles_pair:
  "zs \<in> shuffles [x, y] ys \<Longrightarrow> \<exists>us vs ws. zs = us @ x # vs @ y # ws"
proof (induction ys arbitrary: zs)
  case Nil
  then have "zs = [] @ x # [] @ y # []" by simp
  then show ?case by blast
next
  case (Cons a ys)
  from Cons.prems consider zs' where "zs = x # zs'" "zs' \<in> shuffles [y] (a # ys)"
    | zs' where "zs = a # zs'" "zs' \<in> shuffles [x, y] ys"
    by auto
  then show ?case
  proof cases
    case 1
    from shuffles_single [OF 1(2)] obtain vs ws where "zs' = vs @ y # ws" by blast
    with 1(1) have "zs = [] @ x # vs @ y # ws" by simp
    then show ?thesis by blast
  next
    case 2
    from Cons.IH [OF 2(2)] obtain us vs ws where "zs' = us @ x # vs @ y # ws" by blast
    with 2(1) have "zs = (a # us) @ x # vs @ y # ws" by simp
    then show ?thesis by blast
  qed
qed


text \<open>
  C7. For an update notification the watcher sends the Removed event built from the old
  object and then the Added event built from the new object, one after the other in
  \<^verbatim>\<open>onUpdate\<close>. The main loop, receiving them, makes the \<^verbatim>\<open>UnPublish\<close> calls for the old
  records before the \<^verbatim>\<open>Publish\<close> calls for the new ones, and in every interleaving of
  the two events with the events of other senders the Removed event comes before the
  Added event.
\<close>

theorem onUpdate_Removed_before_Added:
  "ServiceSource_onUpdate ParseIP Unmarshal ToLower s oldObj newObj notifyChan =
     notifyChan @
       [\<lparr>SourceType = ''service'', Action = Deleted,
         Records = ServiceSource_buildRecords ParseIP Unmarshal ToLower s oldObj\<rparr>,
        \<lparr>SourceType = ''service'', Action = Added,
         Records = ServiceSource_buildRecords ParseIP Unmarshal ToLower s newObj\<rparr>] \<and>
   IngressSource_onUpdate ParseIP i oldObj newObj notifyChan =
     notifyChan @
       [\<lparr>SourceType = ''ingress'', Action = Deleted,
         Records = IngressSource_buildRecords ParseIP i oldObj\<rparr>,
        \<lparr>SourceType = ''ingress'', Action = Added,
         Records = IngressSource_buildRecords ParseIP i newObj\<rparr>] \<and>
   main_loop recordTTL (ServiceSource_onUpdate ParseIP Unmarshal ToLower s oldObj newObj []) calls =
     calls @
       map (\<lambda>r. UnPublish (stamp recordTTL r)) (ServiceSource_buildRecords ParseIP Unmarshal ToLower s oldObj) @
       map (\<lambda>r. Publish (stamp recordTTL r)) (ServiceSource_buildRecords ParseIP Unmarshal ToLower s newObj) \<and>
   main_loop recordTTL (IngressSource_onUpdate ParseIP i oldObj newObj []) calls =
     calls @
       map (\<lambda>r. UnPublish (stamp recordTTL r)) (IngressSource_buildRecords ParseIP i oldObj) @
       map (\<lambda>r. Publish (stamp recordTTL r)) (IngressSource_buildRecords ParseIP i newObj) \<and>
   (\<forall>received \<in> shuffles (ServiceSource_onUpdate ParseIP Unmarshal ToLower s oldObj newObj []) others.
      \<exists>before between after.
        received = before @
          \<lparr>SourceType = ''service'', Action = Deleted,
           Records = ServiceSource_buildRecords ParseIP Unmarshal ToLower s oldObj\<rparr> # between @
          \<lparr>SourceType = ''service'', Action = Added,
           Records = ServiceSource_buildRecords ParseIP Unmarshal ToLower s newObj\<rparr> # after) \<and>
   (\<forall>received \<in> shuffles (IngressSource_onUpdate ParseIP i oldObj newObj []) others.
      \<exists>before between after.
        received = before @
          \<lparr>SourceType = ''ingress'', Action = Deleted,
           Records = IngressSource_buildRecords ParseIP i oldObj\<rparr> # between @
          \<lparr>SourceType = ''ingress'', Action = Added,
           Records = IngressSource_buildRecords ParseIP i newObj\<rparr> # after)"
proof -
  have svc: "ServiceSource_onUpdate ParseIP Unmarshal ToLower s oldObj newObj ch =
     ch @
       [\<lparr>SourceType = ''service'', Action = Deleted,
         Records = ServiceSource_buildRecords ParseIP Unmarshal ToLower s oldObj\<rparr>,
        \<lparr>SourceType = ''service'', Action = Added,
         Records = ServiceSource_buildRecords ParseIP Unmarshal ToLower s newObj\<rparr>]" for ch
    by (simp add: ServiceSource_onUpdate_def ServiceSource_onAdd_def ServiceSource_onDelete_def)
  have ing: "IngressSource_onUpdate ParseIP i oldObj newObj ch =
     ch @
       [\<lparr>SourceType = ''ingress'', Action = Deleted,
         Records = IngressSource_buildRecords ParseIP i oldObj\<rparr>,
        \<lparr>SourceType = ''ingress'', Action = Added,
         Records = IngressSource_buildRecords ParseIP i newObj\<rparr>]" for ch
    by (simp add: IngressSource_onUpdate_def IngressSource_onAdd_def IngressSource_onDelete_def)
  show ?thesis
    unfolding svc ing
    by (auto simp: main_loop_def advertise_Deleted advertise_Added dest: shuffles_pair)
qed

theorem onUpdate_Removed_before_Added_witness:
  "main_loop 120
     (ServiceSource_onUpdate ParseIP_example Unmarshal_example ToLower_example \<lparr>publishAll = True\<rparr>
        (ServiceObj (example_service\<lparr>Ports := []\<rparr>))
        (ServiceObj (example_service\<lparr>Ports := [], svc_Ingress := [''10.96.0.1'']\<rparr>)) []) [] =
     [UnPublish (A \<lparr>Name = ''example.default.local.'', Rrtype = 1, Class = 1, Ttl = 120\<rparr>
                   [192, 0, 2, 10]),
      UnPublish (PTR \<lparr>Name = ''10.2.0.192.in-addr.arpa.'', Rrtype = 12, Class = 1, Ttl = 120\<rparr>
                   ''example.default.local.''),
      Publish (A \<lparr>Name = ''example.default.local.'', Rrtype = 1, Class = 1, Ttl = 120\<rparr>
                 [10, 96, 0, 1]),
      Publish (PTR \<lparr>Name = ''1.0.96.10.in-addr.arpa.'', Rrtype = 12, Class = 1, Ttl = 120\<rparr>
                 ''example.default.local.'')] \<and>
   (\<exists>before between after.
      [\<lparr>SourceType = ''service'', Action = Deleted,
        Records = ServiceSource_buildRecords ParseIP_example Unmarshal_example ToLower_example
                    \<lparr>publishAll = True\<rparr> (ServiceObj (example_service\<lparr>Ports := []\<rparr>))\<rparr>,
       \<lparr>SourceType = ''ingress'', Action = Added, Records = []\<rparr>,
       \<lparr>SourceType = ''service'', Action = Added,
        Records = ServiceSource_buildRecords ParseIP_example Unmarshal_example ToLower_example
                    \<lparr>publishAll = True\<rparr>
                    (ServiceObj (example_service\<lparr>Ports := [], svc_Ingress := [''10.96.0.1'']\<rparr>))\<rparr>] =
      before @
        \<lparr>SourceType = ''service'', Action = Deleted,
         Records = ServiceSource_buildRecords ParseIP_example Unmarshal_example ToLower_example
                     \<lparr>publishAll = True\<rparr> (ServiceObj (example_service\<lparr>Ports := []\<rparr>))\<rparr> #
        between @
        \<lparr>SourceType = ''service'', Action = Added,
         Records = ServiceSource_buildRecords ParseIP_example Unmarshal_example ToLower_example
                     \<lparr>publishAll = True\<rparr>
                     (ServiceObj (example_service\<lparr>Ports := [], svc_Ingress := [''10.96.0.1'']\<rparr>))\<rparr> #
        after) \<and>
   main_loop 120
     (IngressSource_onUpdate ParseIP_example \<lparr>namespace = ''default''\<rparr>
        (IngressObj example_ingress)
        (IngressObj (example_ingress\<lparr>Rules := [''web.local'']\<rparr>)) []) [] =
     [UnPublish (A \<lparr>Name = ''app.local.'', Rrtype = 1, Class = 1, Ttl = 120\<rparr> [192, 0, 2, 10]),
      Publish (A \<lparr>Name = ''web.local.'', Rrtype = 1, Class = 1, Ttl = 120\<rparr> [192, 0, 2, 10])] \<and>
   (\<exists>before between after.
      [\<lparr>SourceType = ''service'', Action = Added, Records = []\<rparr>,
       \<lparr>SourceType = ''ingress'', Action = Deleted,
        Records = IngressSource_buildRecords ParseIP_example \<lparr>namespace = ''default''\<rparr>
                    (IngressObj example_ingress)\<rparr>,
       \<lparr>SourceType = ''ingress'', Action = Added,
        Records = IngressSource_buildRecords ParseIP_example \<lparr>namespace = ''default''\<rparr>
                    (IngressObj (example_ingress\<lparr>Rules := [''web.local'']\<rparr>))\<rparr>] =
      before @
        \<lparr>SourceType = ''ingress'', Action = Deleted,
         Records = IngressSource_buildRecords ParseIP_example \<lparr>namespace = ''default''\<rparr>
                     (IngressObj example_ingress)\<rparr> #
        between @
        \<lparr>SourceType = ''ingress'', Action = Added,
         Records = IngressSource_buildRecords ParseIP_example \<lparr>namespace = ''default''\<rparr>
                     (IngressObj (example_ingress\<lparr>Rules := [''web.local'']\<rparr>))\<rparr> #
        after)"
proof -
  let ?old = "ServiceObj (example_service\<lparr>Ports := []\<rparr>)"
  let ?new = "ServiceObj (example_service\<lparr>Ports := [], svc_Ingress := [''10.96.0.1'']\<rparr>)"
  let ?s = "\<lparr>publishAll = True\<rparr>"
  let ?other = "\<lparr>SourceType = ''ingress'', Action = Added, Records = []\<rparr>"
  note upd = onUpdate_Removed_before_Added
               [where ParseIP = ParseIP_example and Unmarshal = Unmarshal_example
                  and ToLower = ToLower_example and s = ?s
                  and oldObj = ?old and newObj = ?new and notifyChan = "[]"
                  and recordTTL = 120 and calls = "[]" and others = "[?other]"
                  and i = "\<lparr>namespace = []\<rparr>"]
  have old: "map (\<lambda>r. UnPublish (stamp 120 r))
               (ServiceSource_buildRecords ParseIP_example Unmarshal_example ToLower_example ?s ?old) =
     [UnPublish (A \<lparr>Name = ''example.default.local.'', Rrtype = 1, Class = 1, Ttl = 120\<rparr>
                   [192, 0, 2, 10]),
      UnPublish (PTR \<lparr>Name = ''10.2.0.192.in-addr.arpa.'', Rrtype = 12, Class = 1, Ttl = 120\<rparr>
                   ''example.default.local.'')]"
    by code_simp
  have new: "map (\<lambda>r. Publish (stamp 120 r))
               (ServiceSource_buildRecords ParseIP_example Unmarshal_example ToLower_example ?s ?new) =
     [Publish (A \<lparr>Name = ''example.default.local.'', Rrtype = 1, Class = 1, Ttl = 120\<rparr>
                 [10, 96, 0, 1]),
      Publish (PTR \<lparr>Name = ''1.0.96.10.in-addr.arpa.'', Rrtype = 12, Class = 1, Ttl = 120\<rparr>
                 ''example.default.local.'')]"
    by code_simp
  have calls: "main_loop 120
     (ServiceSource_onUpdate ParseIP_example Unmarshal_example ToLower_example ?s ?old ?new []) [] =
     map (\<lambda>r. UnPublish (stamp 120 r))
       (ServiceSource_buildRecords ParseIP_example Unmarshal_example ToLower_example ?s ?old) @
     map (\<lambda>r. Publish (stamp 120 r))
       (ServiceSource_buildRecords ParseIP_example Unmarshal_example ToLower_example ?s ?new)"
    using upd [THEN conjunct2, THEN conjunct2, THEN conjunct1] by simp
  have sent: "ServiceSource_onUpdate ParseIP_example Unmarshal_example ToLower_example ?s ?old ?new [] =
     [\<lparr>SourceType = ''service'', Action = Deleted,
       Records = ServiceSource_buildRecords ParseIP_example Unmarshal_example ToLower_example ?s ?old\<rparr>,
      \<lparr>SourceType = ''service'', Action = Added,
       Records = ServiceSource_buildRecords ParseIP_example Unmarshal_example ToLower_example ?s ?new\<rparr>]"
    using upd [THEN conjunct1] by simp
  have received: "[\<lparr>SourceType = ''service'', Action = Deleted,
        Records = ServiceSource_buildRecords ParseIP_example Unmarshal_example ToLower_example ?s ?old\<rparr>,
       ?other,
       \<lparr>SourceType = ''service'', Action = Added,
        Records = ServiceSource_buildRecords ParseIP_example Unmarshal_example ToLower_example ?s ?new\<rparr>]
     \<in> shuffles (ServiceSource_onUpdate ParseIP_example Unmarshal_example ToLower_example ?s ?old ?new [])
          [?other]"
    unfolding sent by simp
  from upd [THEN conjunct2, THEN conjunct2, THEN conjunct2, THEN conjunct2, THEN conjunct1]
    received have sexists: "\<exists>before between after.
      [\<lparr>SourceType = ''service'', Action = Deleted,
        Records = ServiceSource_buildRecords ParseIP_example Unmarshal_example ToLower_example ?s ?old\<rparr>,
       ?other,
       \<lparr>SourceType = ''service'', Action = Added,
        Records = ServiceSource_buildRecords ParseIP_example Unmarshal_example ToLower_example ?s ?new\<rparr>] =
      before @
        \<lparr>SourceType = ''service'', Action = Deleted,
         Records = ServiceSource_buildRecords ParseIP_example Unmarshal_example ToLower_example ?s ?old\<rparr> #
        between @
        \<lparr>SourceType = ''service'', Action = Added,
         Records = ServiceSource_buildRecords ParseIP_example Unmarshal_example ToLower_example ?s ?new\<rparr> #
        after"
    by blast

  let ?i = "\<lparr>namespace = ''default''\<rparr>"
  let ?iold = "IngressObj example_ingress"
  let ?inew = "IngressObj (example_ingress\<lparr>Rules := [''web.local'']\<rparr>)"
  let ?sother = "\<lparr>SourceType = ''service'', Action = Added, Records = []\<rparr>"
  note upd2 = onUpdate_Removed_before_Added
               [where ParseIP = ParseIP_example and Unmarshal = Unmarshal_example
                  and ToLower = ToLower_example and s = ?s
                  and oldObj = ?iold and newObj = ?inew and notifyChan = "[]"
                  and recordTTL = 120 and calls = "[]" and others = "[?sother]" and i = ?i]
  have iold: "map (\<lambda>r. UnPublish (stamp 120 r))
               (IngressSource_buildRecords ParseIP_example ?i ?iold) =
     [UnPublish (A \<lparr>Name = ''app.local.'', Rrtype = 1, Class = 1, Ttl = 120\<rparr> [192, 0, 2, 10])]"
    by code_simp
  have inew: "map (\<lambda>r. Publish (stamp 120 r))
               (IngressSource_buildRecords ParseIP_example ?i ?inew) =
     [Publish (A \<lparr>Name = ''web.local.'', Rrtype = 1, Class = 1, Ttl = 120\<rparr> [192, 0, 2, 10])]"
    by code_simp
  have icalls: "main_loop 120 (IngressSource_onUpdate ParseIP_example ?i ?iold ?inew []) [] =
     map (\<lambda>r. UnPublish (stamp 120 r)) (IngressSource_buildRecords ParseIP_example ?i ?iold) @
     map (\<lambda>r. Publish (stamp 120 r)) (IngressSource_buildRecords ParseIP_example ?i ?inew)"
    using upd2 [THEN conjunct2, THEN conjunct2, THEN conjunct2, THEN conjunct1] by simp
  have isent: "IngressSource_onUpdate ParseIP_example ?i ?iold ?inew [] =
     [\<lparr>SourceType = ''ingress'', Action = Deleted,
       Records = IngressSource_buildRecords ParseIP_example ?i ?iold\<rparr>,
      \<lparr>SourceType = ''ingress'', Action = Added,
       Records = IngressSource_buildRecords ParseIP_example ?i ?inew\<rparr>]"
    using upd2 [THEN conjunct2, THEN conjunct1] by simp
  have ireceived: "[?sother,
       \<lparr>SourceType = ''ingress'', Action = Deleted,
        Records = IngressSource_buildRecords ParseIP_example ?i ?iold\<rparr>,
       \<lparr>SourceType = ''ingress'', Action = Added,
        Records = IngressSource_buildRecords ParseIP_example ?i ?inew\<rparr>]
     \<in> shuffles (IngressSource_onUpdate ParseIP_example ?i ?iold ?inew []) [?sother]"
    unfolding isent by simp
  from upd2 [THEN conjunct2, THEN conjunct2, THEN conjunct2, THEN conjunct2, THEN conjunct2]
    ireceived have iexists: "\<exists>before between after.
      [?sother,
       \<lparr>SourceType = ''ingress'', Action = Deleted,
        Records = IngressSource_buildRecords ParseIP_example ?i ?iold\<rparr>,
       \<lparr>SourceType = ''ingress'', Action = Added,
        Records = IngressSource_buildRecords ParseIP_example ?i ?inew\<rparr>] =
      before @
        \<lparr>SourceType = ''ingress'', Action = Deleted,
         Records = IngressSource_buildRecords ParseIP_example ?i ?iold\<rparr> #
        between @
        \<lparr>SourceType = ''ingress'', Action = Added,
         Records = IngressSource_buildRecords ParseIP_example ?i ?inew\<rparr> #
        after"
    by blast
  from calls old new sexists icalls iold inew iexists show ?thesis by simp
qed

end
